theory Spec2Isabelle
  imports Complex_Main
begin

section \<open>The cholesteric example script of Berreman4x4\<close>

text \<open>
  The development embeds \<^verbatim>\<open>examples/cholesteric.py\<close>. The script is straight-line
  glue around the Berreman4x4 library, numpy and matplotlib. The library is not part of
  the embedded file, so each of its numeric entry points is a field of the record
  \<open>library\<close> and each of its constructors allocates an object on an explicit heap.
  numpy arrays are nested lists with an explicit test for raggedness; a Python exception
  is the left summand of a result. The eigen-decomposition of numpy is a parameter. The
  calls of matplotlib are recorded in the trace of the run; of their behaviour only the
  test of \<^verbatim>\<open>plot\<close> on the dimensions of its arguments is modelled. A run that raises
  has no trace: the statements about traces are about runs that reach the last line.

  IEEE doubles are idealised as the reals and the complex numbers of HOL: no theorem below
  depends on rounding, and none on a quotient with a zero divisor (numpy yields inf or nan
  there, HOL yields 0).
\<close>

subsection \<open>Exceptions\<close>

datatype error = ValueError | IndexError | TypeError | LinAlgError

definition bindE :: "error + 'a \<Rightarrow> ('a \<Rightarrow> error + 'b) \<Rightarrow> error + 'b" where
  "bindE m f = (case m of Inl e \<Rightarrow> Inl e | Inr x \<Rightarrow> f x)"

subsection \<open>numpy arrays\<close>

datatype 'a ndarray = Scalar 'a | Array "'a ndarray list"

fun children :: "'a ndarray \<Rightarrow> 'a ndarray list" where
  "children (Array xs) = xs"
| "children (Scalar x) = []"

fun is_scalar :: "'a ndarray \<Rightarrow> bool" where
  "is_scalar (Scalar x) = True"
| "is_scalar (Array xs) = False"

fun item :: "'a::zero ndarray \<Rightarrow> 'a" where
  "item (Scalar x) = x"
| "item (Array xs) = 0"

text \<open>
  The shape of an array, \<open>None\<close> when the nesting is ragged. An empty list has shape
  \<open>[0]\<close>: nested lists do not record the inner dimensions of an empty array.
\<close>

fun shape :: "'a ndarray \<Rightarrow> nat list option" where
  "shape (Scalar x) = Some []"
| "shape (Array xs) =
     (case map shape xs of
        [] \<Rightarrow> Some [0]
      | s # ss \<Rightarrow>
          (case s of
             None \<Rightarrow> None
           | Some d \<Rightarrow> if list_all (\<lambda>t. t = Some d) ss then Some (length xs # d) else None))"

definition ndim :: "'a ndarray \<Rightarrow> nat" where
  "ndim a = (case shape a of None \<Rightarrow> 0 | Some d \<Rightarrow> length d)"

text \<open>\<^verbatim>\<open>numpy.array([...])\<close> on a list of arrays: the arrays must agree in shape.\<close>

definition np_array :: "'a ndarray list \<Rightarrow> error + 'a ndarray" where
  "np_array rs = (if shape (Array rs) = None then Inl ValueError else Inr (Array rs))"

text \<open>\<^verbatim>\<open>abs(a)**2\<close>, elementwise.\<close>

definition abs_sq :: "complex ndarray \<Rightarrow> real ndarray" where
  "abs_sq a = map_ndarray (\<lambda>z. (cmod z)\<^sup>2) a"

text \<open>
  \<^verbatim>\<open>a.sum(axis=-1)\<close>: the innermost lists are summed. A 0-d operand has the one
  value it holds as its sum.
\<close>

fun sum_last :: "real ndarray \<Rightarrow> real ndarray" where
  "sum_last (Scalar x) = Scalar x"
| "sum_last (Array xs) =
     (if list_all is_scalar xs then Scalar (sum_list (map item xs))
      else Array (map sum_last xs))"

definition np_sum_last :: "real ndarray \<Rightarrow> error + real ndarray" where
  "np_sum_last a =
     (case shape a of
        None \<Rightarrow> Inl ValueError
      | Some d \<Rightarrow> Inr (sum_last a))"

text \<open>\<^verbatim>\<open>numpy.transpose(a)\<close> reverses the axes of \<open>a\<close>.\<close>

primrec push_in :: "nat \<Rightarrow> 'a ndarray list \<Rightarrow> 'a ndarray" where
  "push_in 0 xs = Array xs"
| "push_in (Suc n) xs = Array (map (push_in n) (transpose (map children xs)))"

primrec transpose_axes :: "nat \<Rightarrow> 'a ndarray \<Rightarrow> 'a ndarray" where
  "transpose_axes 0 a = a"
| "transpose_axes (Suc n) a = push_in n (map (transpose_axes n) (children a))"

definition np_transpose :: "'a ndarray \<Rightarrow> 'a ndarray" where
  "np_transpose a = transpose_axes (ndim a) a"

text \<open>\<^verbatim>\<open>(x, y) = a\<close> iterates over the first axis, which must have two entries.\<close>

fun unpack2 :: "'a ndarray \<Rightarrow> error + ('a ndarray \<times> 'a ndarray)" where
  "unpack2 (Scalar x) = Inl TypeError"
| "unpack2 (Array [x, y]) = Inr (x, y)"
| "unpack2 (Array xs) = Inl ValueError"

text \<open>\<^verbatim>\<open>a[i]\<close> for a non-negative index, and \<^verbatim>\<open>a[i,j,:,:]\<close>, \<^verbatim>\<open>a[i,:]\<close>.\<close>

fun index_at :: "nat \<Rightarrow> 'a ndarray \<Rightarrow> error + 'a ndarray" where
  "index_at i (Scalar x) = Inl IndexError"
| "index_at i (Array xs) = (if i < length xs then Inr (xs ! i) else Inl IndexError)"

text \<open>\<^verbatim>\<open>a[i0,...,in]\<close> with one index for every axis: a single element.\<close>

fun entry :: "nat list \<Rightarrow> 'a ndarray \<Rightarrow> 'a option" where
  "entry [] (Scalar x) = Some x"
| "entry [] (Array xs) = None"
| "entry (k # ks) (Scalar x) = None"
| "entry (k # ks) (Array xs) = (if k < length xs then entry ks (xs ! k) else None)"

definition full_slices :: "nat \<Rightarrow> 'a ndarray \<Rightarrow> error + 'a ndarray" where
  "full_slices n a = (if n \<le> ndim a then Inr a else Inl IndexError)"

definition index2_slices2 :: "nat \<Rightarrow> nat \<Rightarrow> 'a ndarray \<Rightarrow> error + 'a ndarray" where
  "index2_slices2 i j a = bindE (index_at i a) (\<lambda>b. bindE (index_at j b) (full_slices 2))"

definition index1_slice1 :: "nat \<Rightarrow> 'a ndarray \<Rightarrow> error + 'a ndarray" where
  "index1_slice1 i a = bindE (index_at i a) (full_slices 1)"

text \<open>\<^verbatim>\<open>numpy.argmin\<close> on a one-dimensional array: the first index of the minimum.\<close>

fun argmin_from :: "real list \<Rightarrow> nat \<Rightarrow> nat \<Rightarrow> real \<Rightarrow> nat" where
  "argmin_from [] k b v = b"
| "argmin_from (x # xs) k b v =
     (if x < v then argmin_from xs (Suc k) k x else argmin_from xs (Suc k) b v)"

fun argmin :: "real list \<Rightarrow> error + nat" where
  "argmin [] = Inl ValueError"
| "argmin (x # xs) = Inr (argmin_from xs 1 0 x)"

text \<open>\<^verbatim>\<open>numpy.linspace(start, stop, num)\<close> with the end point included.\<close>

definition linspace :: "real \<Rightarrow> real \<Rightarrow> nat \<Rightarrow> real list" where
  "linspace start stop num =
     (let step = (stop - start) / real (num - 1);
          y = map (\<lambda>i. start + real i * step) [0..<num]
      in if 1 < num then y[num - 1 := stop] else y)"

text \<open>\<^verbatim>\<open>a / b\<close> with numpy's broadcasting: shapes are aligned at the last axis.\<close>

fun broadcastable :: "nat list \<Rightarrow> nat list \<Rightarrow> bool" where
  "broadcastable (x # xs) (y # ys) = ((x = y \<or> x = 1 \<or> y = 1) \<and> broadcastable xs ys)"
| "broadcastable xs ys = True"

fun divide_nd :: "nat \<Rightarrow> nat \<Rightarrow> complex ndarray \<Rightarrow> complex ndarray \<Rightarrow> complex ndarray" where
  "divide_nd 0 0 a b = Scalar (item a / item b)"
| "divide_nd (Suc n) 0 a b = Array (map (\<lambda>a'. divide_nd n 0 a' b) (children a))"
| "divide_nd 0 (Suc m) a b = Array (map (\<lambda>b'. divide_nd 0 m a b') (children b))"
| "divide_nd (Suc n) (Suc m) a b =
     (if m < n then Array (map (\<lambda>a'. divide_nd n (Suc m) a' b) (children a))
      else if n < m then Array (map (\<lambda>b'. divide_nd (Suc n) m a b') (children b))
      else if length (children a) = length (children b)
        then Array (map (\<lambda>(a', b'). divide_nd n m a' b') (zip (children a) (children b)))
      else if length (children a) = 1
        then Array (map (\<lambda>b'. divide_nd n m (hd (children a)) b') (children b))
      else Array (map (\<lambda>a'. divide_nd n m a' (hd (children b))) (children a)))"

definition np_divide :: "complex ndarray \<Rightarrow> complex ndarray \<Rightarrow> error + complex ndarray" where
  "np_divide a b =
     (case shape a of
        None \<Rightarrow> Inl ValueError
      | Some da \<Rightarrow>
          (case shape b of
             None \<Rightarrow> Inl ValueError
           | Some db \<Rightarrow>
               if broadcastable (rev da) (rev db)
               then Inr (divide_nd (length da) (length db) a b)
               else Inl ValueError))"

text \<open>
  \<^verbatim>\<open>numpy.linalg.eig(a)\<close> wants square matrices in the last two axes. The
  decomposition itself is numpy's and is the parameter \<open>eigf\<close>.
\<close>

type_synonym eig_fun = "complex ndarray \<Rightarrow> complex ndarray \<times> complex ndarray"

definition np_eig :: "eig_fun \<Rightarrow> complex ndarray \<Rightarrow> error + (complex ndarray \<times> complex ndarray)" where
  "np_eig eigf a =
     (case shape a of
        None \<Rightarrow> Inl LinAlgError
      | Some d \<Rightarrow>
          if 2 \<le> length d \<and> last d = last (butlast d) then Inr (eigf a)
          else Inl LinAlgError)"

text \<open>
  \<^verbatim>\<open>ax.plot(x, y, label=...)\<close>: matplotlib wants \<open>y\<close> of one or two dimensions
  whose first axis is as long as \<open>x\<close>.
\<close>

definition plot_check :: "real list \<Rightarrow> real ndarray \<Rightarrow> error + unit" where
  "plot_check x y =
     (case shape y of
        None \<Rightarrow> Inl ValueError
      | Some d \<Rightarrow>
          if (length d = 1 \<or> length d = 2) \<and> hd d = length x then Inr ()
          else Inl ValueError)"

subsection \<open>The library: objects on a heap, numeric entry points as parameters\<close>

type_synonym ref = nat

text \<open>
  One constructor per library class the script instantiates; \<open>Rotated\<close> is the object
  that \<^verbatim>\<open>LC.rotated(R)\<close> returns. An object holds references, not copies.
\<close>

datatype obj =
    IsotropicNonDispersiveMaterial real
  | IsotropicHalfSpace ref
  | UniaxialNonDispersiveMaterial real real
  | Rotated ref "real ndarray"
  | TwistedMaterial ref real real nat
  | InhomogeneousLayer ref
  | RepeatedLayers "ref list" nat
  | Structure ref "ref list" ref

type_synonym heap = "obj list"

definition new :: "obj \<Rightarrow> heap \<Rightarrow> ref \<times> heap" where
  "new ob hp = (length hp, hp @ [ob])"

text \<open>
  Modelled from the spec: the script imports \<^verbatim>\<open>pi\<close> from the library, which is
  not part of the embedded file. It is the number \<open>\<pi>\<close>: the wavenumber of a wavelength
  \<open>\<lambda>\<close> is \<open>2\<pi>/\<lambda>\<close>.
\<close>

definition pi_lib :: real where
  "pi_lib = pi"

record library =
  rotation_v_theta :: "real list \<Rightarrow> real \<Rightarrow> real ndarray"
  getJones :: "heap \<Rightarrow> ref \<Rightarrow> real \<Rightarrow> real \<Rightarrow> complex ndarray"
  circularJones :: "complex ndarray \<Rightarrow> complex ndarray"
  extractCoefficient :: "real ndarray \<Rightarrow> string \<Rightarrow> real ndarray"

subsection \<open>The trace of calls the script makes\<close>

datatype printed = Text string | RealValues "real ndarray" | ComplexValues "complex ndarray"

datatype call =
    New obj ref
  | RotationVTheta "real list" real
  | GetJones ref real real
  | ExtractCoefficient string
  | CircularJones
  | Numpy string
  | Print printed
  | Figure
  | AddSubplot string
  | Rectangle "real \<times> real" real real string
  | AddPatch
  | Plot "real list" "real ndarray" string
  | Legend string "real \<times> real"
  | SetTitle string real
  | SetXlabel string
  | SetYlabel string
  | GetMajorFormatter
  | SetPowerlimits int int
  | Show

text \<open>The sections of the script, in the order of its text.\<close>

datatype phase =
    Construction
  | Sweep
  | Solver
  | LinearBasis
  | EigenAnalysis
  | Diagnostics
  | CircularBasis
  | Plotting

type_synonym event = "phase \<times> call"

subsection \<open>Lines 14 to 49: materials, layers, structure, sweep parameters\<close>

definition no :: real where "no = 1.5"
definition ne :: real where "ne = 1.6"
definition Dn :: real where "Dn = ne - no"
definition n_med :: real where "n_med = (ne + no) / 2"
definition p :: real where "p = 0.65 / 10 ^ 6"
definition N :: nat where "N = 25"
definition h :: real where "h = real N * p / 2"
definition Kx :: real where "Kx = 0.0"
definition lbda_min :: real where "lbda_min = 0.8 / 10 ^ 6"
definition lbda_max :: real where "lbda_max = 1.2 / 10 ^ 6"
definition lbda_B :: real where "lbda_B = p * n_med"
definition lbda_list :: "real list" where "lbda_list = linspace lbda_min lbda_max 100"
definition k0_list :: "real list" where "k0_list = map (\<lambda>lbda. 2 * pi_lib / lbda) lbda_list"
definition R_th :: real where "R_th = (tanh (Dn / n_med * pi_lib * h / p))\<^sup>2"
definition lbda_B1 :: real where "lbda_B1 = p * no"
definition lbda_B2 :: real where "lbda_B2 = p * ne"

record objects =
  glass :: ref
  front :: ref
  "back" :: ref
  LC :: ref
  R :: "real ndarray"
  TN :: ref
  IL :: ref
  L :: ref
  s :: ref

text \<open>
  Lines 15 to 35. \<^verbatim>\<open>front = back = IsotropicHalfSpace(glass)\<close> evaluates the
  constructor once and binds both names to its result; \<^verbatim>\<open>LC\<close> is bound twice.
\<close>

definition build_structure :: "library \<Rightarrow> heap \<Rightarrow> objects \<times> heap \<times> event list" where
  "build_structure lib hp0 =
     (let (glass, hp1) = new (IsotropicNonDispersiveMaterial 1.55) hp0;
          (half, hp2) = new (IsotropicHalfSpace glass) hp1;
          front = half;
          back = half;
          (LC0, hp3) = new (UniaxialNonDispersiveMaterial no ne) hp2;
          R = rotation_v_theta lib [0, 1, 0] (pi_lib / 2);
          (LC, hp4) = new (Rotated LC0 R) hp3;
          (TN, hp5) = new (TwistedMaterial LC (p / 2) pi_lib 40) hp4;
          (IL, hp6) = new (InhomogeneousLayer TN) hp5;
          (L, hp7) = new (RepeatedLayers [IL] N) hp6;
          (s, hp8) = new (Structure front [L] back) hp7
      in (\<lparr>glass = glass, front = front, back = back, LC = LC, R = R, TN = TN, IL = IL,
           L = L, s = s\<rparr>,
          hp8,
          map (Pair Construction)
            [New (IsotropicNonDispersiveMaterial 1.55) glass,
             New (IsotropicHalfSpace glass) half,
             New (UniaxialNonDispersiveMaterial no ne) LC0,
             RotationVTheta [0, 1, 0] (pi_lib / 2),
             New (Rotated LC0 R) LC,
             New (TwistedMaterial LC (p / 2) pi_lib 40) TN,
             New (InhomogeneousLayer TN) IL,
             New (RepeatedLayers [IL] N) L,
             New (Structure front [L] back) s]))"

text \<open>Lines 41 to 49 call numpy twice.\<close>

definition sweep_events :: "event list" where
  "sweep_events = map (Pair Sweep) [Numpy ''linspace'', Numpy ''tanh'']"

subsection \<open>Lines 53 to 63: the solver loop and the power coefficients in the linear basis\<close>

text \<open>Line 53: one call of \<^verbatim>\<open>s.getJones(Kx, k0)\<close> for each \<open>k0\<close>, in the order of \<open>k0_list\<close>.\<close>

definition solver_loop :: "library \<Rightarrow> heap \<Rightarrow> ref \<Rightarrow> complex ndarray list \<times> event list" where
  "solver_loop lib hp st =
     (map (\<lambda>k0. getJones lib hp st Kx k0) k0_list,
      map (\<lambda>k0. (Solver, GetJones st Kx k0)) k0_list)"

record linear_vars =
  J :: "complex ndarray"
  T_pp :: "real ndarray"
  R_pp :: "real ndarray"
  T_sp :: "real ndarray"
  R_sp :: "real ndarray"
  total_power :: "real ndarray"
  R_np :: "real ndarray"
  T_np :: "real ndarray"

definition linear_events :: "event list" where
  "linear_events =
     map (Pair LinearBasis)
       [Numpy ''array'', Numpy ''abs'',
        ExtractCoefficient ''t_pp'', ExtractCoefficient ''r_pp'',
        ExtractCoefficient ''t_sp'', ExtractCoefficient ''r_sp'',
        Numpy ''sum'', Numpy ''sum'', Numpy ''transpose'']"

definition linear_phase :: "library \<Rightarrow> complex ndarray list \<Rightarrow> error + linear_vars \<times> event list" where
  "linear_phase lib results =
     bindE (np_array results) (\<lambda>J.
       let power = abs_sq J;
           T_pp = extractCoefficient lib power ''t_pp'';
           R_pp = extractCoefficient lib power ''r_pp'';
           T_sp = extractCoefficient lib power ''t_sp'';
           R_sp = extractCoefficient lib power ''r_sp''
       in bindE (np_sum_last power) (\<lambda>s1.
          bindE (np_sum_last s1) (\<lambda>s2.
            let total_power = map_ndarray (\<lambda>x. x / 2) s2
            in bindE (unpack2 (np_transpose total_power)) (\<lambda>(R_np, T_np).
                 Inr (\<lparr>J = J, T_pp = T_pp, R_pp = R_pp, T_sp = T_sp, R_sp = R_sp,
                       total_power = total_power, R_np = R_np, T_np = T_np\<rparr>,
                      linear_events)))))"

subsection \<open>Lines 66 to 84: the eigen-analysis and the printed diagnostics\<close>

record eigen_vars =
  i :: nat
  T :: "complex ndarray"
  eigenvalues :: "complex ndarray"
  eigenvectors :: "complex ndarray"

definition eigen_events :: "event list" where
  "eigen_events = map (Pair EigenAnalysis) [Numpy ''abs'', Numpy ''argmin'', Numpy ''eig'']"

definition eigen_phase :: "eig_fun \<Rightarrow> complex ndarray \<Rightarrow> error + eigen_vars \<times> event list" where
  "eigen_phase eigf = (\<lambda>J.
     bindE (argmin (map (\<lambda>lbda. \<bar>lbda - lbda_B\<bar>) lbda_list)) (\<lambda>i.
     bindE (index2_slices2 i 1 J) (\<lambda>T.
     bindE (np_eig eigf T) (\<lambda>(eigenvalues, eigenvectors).
       Inr (\<lparr>i = i, T = T, eigenvalues = eigenvalues, eigenvectors = eigenvectors\<rparr>,
            eigen_events)))))"

text \<open>
  Lines 69 to 84. The argument of a \<^verbatim>\<open>print\<close> is evaluated just before the call, so
  the numpy calls inside the arguments appear between the printed values.
\<close>

definition diagnostics_events ::
  "complex ndarray \<Rightarrow> complex ndarray \<Rightarrow> complex ndarray \<Rightarrow> complex ndarray \<Rightarrow> event list" where
  "diagnostics_events = (\<lambda>eigenvalues eigenvectors normalized ratio.
     map (Pair Diagnostics)
       [Numpy ''set_printoptions'',
        Print (Text (CHR 0x0A # ''Transmission in the middle of the stop-band...'' @ [CHR 0x0A])),
        Print (Text ''Eigenvalues of the Jones transmission matrix:''),
        Print (ComplexValues eigenvalues),
        Print (Text ''Corresponding power transmission:''),
        Numpy ''abs'',
        Print (RealValues (abs_sq eigenvalues)),
        Print (Text ''Corresponding eigenvectors:''),
        Print (ComplexValues eigenvectors),
        Print (Text (''Normalization to the '' @ [CHR 0x27] @ ''p'' @ [CHR 0x27] @ '' componant:'')),
        Print (ComplexValues normalized),
        Print (Text (''Ratio '' @ [CHR 0x27] @ ''s'' @ [CHR 0x27] @ ''/'' @ [CHR 0x27] @ ''p''
                     @ [CHR 0x27] @ '':'')),
        Numpy ''abs'',
        Print (RealValues (map_ndarray cmod ratio)),
        Print (Text (''Ellipticity angle ('' @ [CHR 0xC2, CHR 0xB0] @ '') (+90''
                     @ [CHR 0xC2, CHR 0xB0] @ '': L, -90'' @ [CHR 0xC2, CHR 0xB0] @ '': R)'')),
        Numpy ''angle'',
        Print (RealValues (map_ndarray (\<lambda>z. 180 / pi_lib * Arg z) ratio))])"

definition diagnostics :: "complex ndarray \<Rightarrow> complex ndarray \<Rightarrow> error + event list" where
  "diagnostics = (\<lambda>eigenvalues eigenvectors.
     bindE (index1_slice1 0 eigenvectors) (\<lambda>row0.
     bindE (np_divide eigenvectors row0) (\<lambda>normalized.
     bindE (index1_slice1 1 eigenvectors) (\<lambda>row1.
     bindE (np_divide row1 row0) (\<lambda>ratio.
       Inr (diagnostics_events eigenvalues eigenvectors normalized ratio))))))"

subsection \<open>Lines 87 to 98: the circular wave basis\<close>

text \<open>
  Line 88 binds \<^verbatim>\<open>power\<close> a second time; \<open>power_c\<close> is this second value (in HOL
  \<open>power\<close> is the name of exponentiation).
\<close>

record circular_vars =
  Jc :: "complex ndarray"
  power_c :: "real ndarray"
  R_RR :: "real ndarray"
  T_RR :: "real ndarray"
  T_LL :: "real ndarray"
  R_LL :: "real ndarray"

definition circular_events :: "event list" where
  "circular_events =
     map (Pair CircularBasis)
       [CircularJones, Numpy ''abs'',
        ExtractCoefficient ''r_RR'', ExtractCoefficient ''t_RR'',
        ExtractCoefficient ''t_LL'', ExtractCoefficient ''r_LL'']"

definition circular_phase :: "library \<Rightarrow> complex ndarray \<Rightarrow> circular_vars \<times> event list" where
  "circular_phase lib = (\<lambda>J.
      let Jc = circularJones lib J;
          power = abs_sq Jc;
          R_RR = extractCoefficient lib power ''r_RR'';
          T_RR = extractCoefficient lib power ''t_RR'';
          T_LL = extractCoefficient lib power ''t_LL'';
          R_LL = extractCoefficient lib power ''r_LL''
      in (\<lparr>Jc = Jc, power_c = power, R_RR = R_RR, T_RR = T_RR, T_LL = T_LL, R_LL = R_LL\<rparr>,
          circular_events))"

subsection \<open>Lines 102 to 128: the chart\<close>

definition chart_events :: "real ndarray \<Rightarrow> real ndarray \<Rightarrow> event list" where
  "chart_events = (\<lambda>R_RR T_RR.
     map (Pair Plotting)
       [Figure,
        AddSubplot ''111'',
        Rectangle (lbda_B1, 0) (lbda_B2 - lbda_B1) R_th ''cyan'',
        AddPatch,
        Plot lbda_list R_RR ''R_RR'',
        Plot lbda_list T_RR ''T_RR'',
        Legend ''center right'' (1.00, 0.50),
        SetTitle ''Right-handed Cholesteric Liquid Crystal, {:.1f} helix pitches'' (real N / 2),
        SetXlabel (''Wavelength $'' @ [CHR 0x5C] @ ''lambda_0$ (m)''),
        SetYlabel ''Power transmission $T$ and reflexion $R$'',
        GetMajorFormatter,
        SetPowerlimits (- 3) 3,
        Show])"

definition plotting :: "real ndarray \<Rightarrow> real ndarray \<Rightarrow> error + event list" where
  "plotting = (\<lambda>R_RR T_RR.
     bindE (plot_check lbda_list R_RR) (\<lambda>_.
     bindE (plot_check lbda_list T_RR) (\<lambda>_.
       Inr (chart_events R_RR T_RR))))"

subsection \<open>The script\<close>

record run =
  objs :: objects
  store :: heap
  linear_basis :: linear_vars
  eigen_analysis :: eigen_vars
  circular_basis :: circular_vars
  trace :: "event list"

definition script :: "library \<Rightarrow> eig_fun \<Rightarrow> error + run" where
  "script lib eigf =
     (let (ob, hp, ev_construct) = build_structure lib [];
          (results, ev_solver) = solver_loop lib hp (s ob)
      in bindE (linear_phase lib results) (\<lambda>(lin, ev_linear).
         bindE (eigen_phase eigf (J lin)) (\<lambda>(eg, ev_eigen).
         bindE (diagnostics (eigenvalues eg) (eigenvectors eg)) (\<lambda>ev_print.
           let (circ, ev_circular) = circular_phase lib (J lin)
           in bindE (plotting (R_RR circ) (T_RR circ)) (\<lambda>ev_plot.
                Inr \<lparr>objs = ob, store = hp, linear_basis = lin, eigen_analysis = eg,
                     circular_basis = circ,
                     trace = ev_construct @ sweep_events @ ev_solver @ ev_linear @ ev_eigen
                             @ ev_print @ ev_circular @ ev_plot\<rparr>)))))"

section \<open>Notions used in the statements\<close>

text \<open>
  What lines 15 to 35 leave behind, written out: the references bound to the script's
  names, the heap, and the calls made. The heap is empty when the script starts, so the
  references are the positions 0 to 7.
\<close>

definition constructed :: "library \<Rightarrow> objects" where
  "constructed lib =
     \<lparr>glass = 0, front = 1, back = 1, LC = 3, R = rotation_v_theta lib [0, 1, 0] (pi_lib / 2),
      TN = 4, IL = 5, L = 6, s = 7\<rparr>"

definition constructed_heap :: "library \<Rightarrow> heap" where
  "constructed_heap lib =
     [IsotropicNonDispersiveMaterial 1.55,
      IsotropicHalfSpace 0,
      UniaxialNonDispersiveMaterial no ne,
      Rotated 2 (rotation_v_theta lib [0, 1, 0] (pi_lib / 2)),
      TwistedMaterial 3 (p / 2) pi_lib 40,
      InhomogeneousLayer 4,
      RepeatedLayers [5] N,
      Structure 1 [6] 1]"

definition construct_events :: "library \<Rightarrow> event list" where
  "construct_events lib =
     map (Pair Construction)
       [New (IsotropicNonDispersiveMaterial 1.55) 0,
        New (IsotropicHalfSpace 0) 1,
        New (UniaxialNonDispersiveMaterial no ne) 2,
        RotationVTheta [0, 1, 0] (pi_lib / 2),
        New (Rotated 2 (rotation_v_theta lib [0, 1, 0] (pi_lib / 2))) 3,
        New (TwistedMaterial 3 (p / 2) pi_lib 40) 4,
        New (InhomogeneousLayer 4) 5,
        New (RepeatedLayers [5] N) 6,
        New (Structure 1 [6] 1) 7]"

text \<open>Half the sum of the squared moduli of the entries of a matrix.\<close>

definition half_power :: "complex ndarray \<Rightarrow> real" where
  "half_power m = item (sum_last (sum_last (abs_sq m))) / 2"

text \<open>
  The shapes under which the script runs to its last line: the solver returns a pair of
  2x2 matrices, \<^verbatim>\<open>circularJones\<close> keeps the shape of the sweep,
  \<^verbatim>\<open>extractCoefficient\<close> returns one number for each wavelength, and the
  eigenvectors of a 2x2 matrix form a 2x2 matrix.
\<close>

definition well_shaped :: "library \<Rightarrow> eig_fun \<Rightarrow> bool" where
  "well_shaped lib eigf \<longleftrightarrow>
     (\<forall>hp st kx k0. shape (getJones lib hp st kx k0) = Some [2, 2, 2]) \<and>
     (\<forall>a. shape a = Some [100, 2, 2, 2] \<longrightarrow> shape (circularJones lib a) = Some [100, 2, 2, 2]) \<and>
     (\<forall>pw c. shape pw = Some [100, 2, 2, 2] \<longrightarrow> shape (extractCoefficient lib pw c) = Some [100]) \<and>
     (\<forall>t. shape t = Some [2, 2] \<longrightarrow> shape (snd (eigf t)) = Some [2, 2])"

text \<open>
  Modelled from the spec: the solver \<^verbatim>\<open>Structure.getJones\<close> belongs to the library,
  which is not part of the embedded file. The specification gives its contract as "given
  layer stack + incidence angle + wavenumber, return a 2x2 or 4x4 complex Jones/scattering
  matrix".
\<close>

definition jones_contract :: "complex ndarray \<Rightarrow> bool" where
  "jones_contract a \<longleftrightarrow> shape a = Some [2, 2] \<or> shape a = Some [4, 4]"

text \<open>Kinds of calls in the trace.\<close>

fun is_constructor :: "call \<Rightarrow> bool" where
  "is_constructor (New ob a) = True"
| "is_constructor c = False"

fun is_solver :: "call \<Rightarrow> bool" where
  "is_solver (GetJones st kx k0) = True"
| "is_solver c = False"

fun is_library_array_call :: "call \<Rightarrow> bool" where
  "is_library_array_call (ExtractCoefficient name) = True"
| "is_library_array_call CircularJones = True"
| "is_library_array_call c = False"

fun is_print :: "call \<Rightarrow> bool" where
  "is_print (Print x) = True"
| "is_print c = False"

fun is_plot :: "call \<Rightarrow> bool" where
  "is_plot (Plot x y label) = True"
| "is_plot c = False"

fun is_pyplot :: "call \<Rightarrow> bool" where
  "is_pyplot (New ob a) = False"
| "is_pyplot (RotationVTheta v theta) = False"
| "is_pyplot (GetJones st kx k0) = False"
| "is_pyplot (ExtractCoefficient name) = False"
| "is_pyplot CircularJones = False"
| "is_pyplot (Numpy name) = False"
| "is_pyplot (Print x) = False"
| "is_pyplot c = True"

fun is_half_space :: "obj \<Rightarrow> bool" where
  "is_half_space (IsotropicHalfSpace m) = True"
| "is_half_space ob = False"

fun is_numpy :: "call \<Rightarrow> bool" where
  "is_numpy (Numpy name) = True"
| "is_numpy c = False"

text \<open>The rank of a section is its position in the text of the script.\<close>

fun phase_rank :: "phase \<Rightarrow> nat" where
  "phase_rank Construction = 0"
| "phase_rank Sweep = 1"
| "phase_rank Solver = 2"
| "phase_rank LinearBasis = 3"
| "phase_rank EigenAnalysis = 4"
| "phase_rank Diagnostics = 5"
| "phase_rank CircularBasis = 6"
| "phase_rank Plotting = 7"

text \<open>
  The five phases in which the claims and the specification tell the run: the objects are
  constructed, the solver is called in a loop, the results are post-processed, diagnostic
  numbers are printed, the chart is drawn. The set-up of the sweep belongs to what comes
  before the loop; the arithmetic in the linear basis, the eigen-analysis and the arithmetic
  in the circular basis are post-processing.
\<close>

datatype stage = Constructing | Solving | PostProcessing | Printing | Charting

fun stage_of :: "phase \<Rightarrow> stage" where
  "stage_of Construction = Constructing"
| "stage_of Sweep = Constructing"
| "stage_of Solver = Solving"
| "stage_of LinearBasis = PostProcessing"
| "stage_of EigenAnalysis = PostProcessing"
| "stage_of Diagnostics = Printing"
| "stage_of CircularBasis = PostProcessing"
| "stage_of Plotting = Charting"

fun stage_rank :: "stage \<Rightarrow> nat" where
  "stage_rank Constructing = 0"
| "stage_rank Solving = 1"
| "stage_rank PostProcessing = 2"
| "stage_rank Printing = 3"
| "stage_rank Charting = 4"

text \<open>
  Which kinds of calls a section holds: constructors only in the construction, the solver
  in the solver loop and nowhere else, the array functions of the library in the two
  post-processing sections, \<^verbatim>\<open>print\<close> in the diagnostics, matplotlib in the chart
  and nowhere else.
\<close>

definition in_its_section :: "event \<Rightarrow> bool" where
  "in_its_section e =
     (case e of (ph, c) \<Rightarrow>
        (is_constructor c \<longrightarrow> ph = Construction) \<and>
        (is_solver c \<longleftrightarrow> ph = Solver) \<and>
        (is_library_array_call c \<longrightarrow> ph = LinearBasis \<or> ph = CircularBasis) \<and>
        (is_print c \<longrightarrow> ph = Diagnostics) \<and>
        (is_pyplot c \<longleftrightarrow> ph = Plotting))"

text \<open>The values handed to \<^verbatim>\<open>print\<close>, in the order of the calls.\<close>

fun printed_values :: "event list \<Rightarrow> printed list" where
  "printed_values [] = []"
| "printed_values ((ph, Print x) # es) = x # printed_values es"
| "printed_values (e # es) = printed_values es"

text \<open>
  A concrete library and eigen-decomposition on which the script runs through. The stack
  reflects nothing and transmits everything, so that every vector is an eigenvector of the
  transmission matrix, with eigenvalue 1; a coefficient is read from the first entry of
  the reflection or of the transmission matrix of each wavelength.
\<close>

definition unit_pair :: "complex ndarray" where
  "unit_pair =
     Array [Array [Array [Scalar 0, Scalar 0], Array [Scalar 0, Scalar 0]],
            Array [Array [Scalar 1, Scalar 0], Array [Scalar 0, Scalar 1]]]"

definition sample_coefficient :: "real ndarray \<Rightarrow> string \<Rightarrow> real" where
  "sample_coefficient a c =
     (case entry [if take 1 c = ''t'' then 1 else 0, 0, 0] a of Some x \<Rightarrow> x | None \<Rightarrow> 0)"

definition sample_library :: library where
  "sample_library =
     \<lparr>rotation_v_theta = (\<lambda>v theta. Array []),
      getJones = (\<lambda>hp st kx k0. unit_pair),
      circularJones = (\<lambda>a. a),
      extractCoefficient =
        (\<lambda>pw c. Array (map (\<lambda>a. Scalar (sample_coefficient a c)) (children pw)))\<rparr>"

definition sample_eig :: eig_fun where
  "sample_eig = (\<lambda>t. (Array [Scalar 1, Scalar 1],
                       Array [Array [Scalar 1, Scalar 1], Array [Scalar 1, Scalar (- 1)]]))"



section \<open>Properties of the array operations and of the phases\<close>

lemma shape_Array_uniform:
  "xs \<noteq> [] \<Longrightarrow> \<forall>x\<in>set xs. shape x = Some d \<Longrightarrow> shape (Array xs) = Some (length xs # d)"
  by (cases xs) (auto simp: list_all_iff)

lemma shape_Array_SomeD:
  "shape (Array xs) = Some (n # d) \<Longrightarrow> xs \<noteq> [] \<Longrightarrow> n = length xs \<and> (\<forall>x\<in>set xs. shape x = Some d)"
  by (cases xs) (auto simp: list_all_iff split: option.splits if_splits)

lemma shape_Scalar_iff: "shape a = Some [] \<longleftrightarrow> (\<exists>x. a = Scalar x)"
  by (cases a) (auto split: list.splits option.splits if_splits)

lemma shape_map_ndarray: "shape (map_ndarray f a) = shape a"
proof (induction a)
  case (Scalar x)
  show ?case by simp
next
  case (Array xs)
  have "map shape (map (map_ndarray f) xs) = map shape xs"
    using Array by (induction xs) auto
  then show ?case by (simp del: map_map split: list.splits option.splits)
qed

lemma entry_map_ndarray: "entry ks (map_ndarray f a) = map_option f (entry ks a)"
proof (induction ks a rule: entry.induct)
qed auto

lemma shape_vector2:
  assumes "shape a = Some [2]"
  shows "\<exists>x y. a = Array [Scalar x, Scalar y]"
proof -
  obtain xs where a: "a = Array xs" using assms by (cases a) auto
  have ne: "xs \<noteq> []" using assms a by auto
  from shape_Array_SomeD[OF assms[unfolded a] ne]
  have len: "length xs = 2" and el: "\<forall>x\<in>set xs. shape x = Some []" by auto
  then obtain u v where xs: "xs = [u, v]"
    by (metis (no_types, opaque_lifting) One_nat_def Suc_1 length_0_conv length_Suc_conv)
  with el show ?thesis using a by (auto simp: shape_Scalar_iff)
qed

lemma shape_matrix22:
  assumes "shape a = Some [2, 2]"
  shows "\<exists>p q r s. a = Array [Array [Scalar p, Scalar q], Array [Scalar r, Scalar s]]"
proof -
  obtain xs where a: "a = Array xs" using assms by (cases a) auto
  have ne: "xs \<noteq> []" using assms a by auto
  from shape_Array_SomeD[OF assms[unfolded a] ne]
  have len: "length xs = 2" and el: "\<forall>x\<in>set xs. shape x = Some [2]" by auto
  then obtain u v where xs: "xs = [u, v]"
    by (metis (no_types, opaque_lifting) One_nat_def Suc_1 length_0_conv length_Suc_conv)
  with el have "shape u = Some [2]" "shape v = Some [2]" by auto
  then show ?thesis using a xs by (metis shape_vector2)
qed

lemma shape_pair222:
  assumes "shape a = Some [2, 2, 2]"
  shows "\<exists>m n. a = Array [m, n] \<and> shape m = Some [2, 2] \<and> shape n = Some [2, 2]"
proof -
  obtain xs where a: "a = Array xs" using assms by (cases a) auto
  have ne: "xs \<noteq> []" using assms a by auto
  from shape_Array_SomeD[OF assms[unfolded a] ne]
  have len: "length xs = 2" and el: "\<forall>x\<in>set xs. shape x = Some [2, 2]" by auto
  then obtain u v where xs: "xs = [u, v]"
    by (metis (no_types, opaque_lifting) One_nat_def Suc_1 length_0_conv length_Suc_conv)
  with el show ?thesis using a by auto
qed


lemma shape_sum_last:
  "shape a = Some d \<Longrightarrow> d \<noteq> [] \<Longrightarrow> shape (sum_last a) = Some (butlast d)"
proof (induction a arbitrary: d)
  case (Scalar x)
  then show ?case by simp
next
  case (Array xs)
  show ?case
  proof (cases "xs = []")
    case True
    with Array.prems show ?thesis by auto
  next
    case False
    from Array.prems(1) obtain d' where d: "d = length xs # d'"
      using False by (cases xs) (auto split: option.splits if_splits)
    with Array.prems(1) False have el: "\<forall>x\<in>set xs. shape x = Some d'"
      using shape_Array_SomeD by blast
    show ?thesis
    proof (cases "list_all is_scalar xs")
      case True
      obtain x where "x \<in> set xs" using False by (cases xs) auto
      with True have "is_scalar x" by (simp add: list_all_iff)
      then obtain v where "x = Scalar v" by (cases x) auto
      with el \<open>x \<in> set xs\<close> have "d' = []" by auto
      with True d show ?thesis by simp
    next
      case nsc: False
      then obtain x where x: "x \<in> set xs" "\<not> is_scalar x" by (auto simp: list_all_iff)
      then have "d' \<noteq> []" using el is_scalar.simps(1) by (fastforce simp: shape_Scalar_iff)
      have "\<forall>y\<in>set (map sum_last xs). shape y = Some (butlast d')"
        using Array.IH el \<open>d' \<noteq> []\<close> by auto
      then have "shape (Array (map sum_last xs)) = Some (length (map sum_last xs) # butlast d')"
        using False by (intro shape_Array_uniform) auto
      with nsc d \<open>d' \<noteq> []\<close> show ?thesis by simp
    qed
  qed
qed

lemma np_sum_last_ok:
  "shape a = Some d \<Longrightarrow> d \<noteq> [] \<Longrightarrow> np_sum_last a = Inr (sum_last a)"
  by (simp add: np_sum_last_def)

lemma concat_heads: "concat (map (case_list [] (\<lambda>h t. [h])) (map (\<lambda>r. f r # g r) rs)) = map f rs"
  by (induction rs) auto

lemma concat_tails: "concat (map (case_list [] (\<lambda>h t. [t])) (map (\<lambda>r. f r # g r) rs)) = map g rs"
  by (induction rs) auto

lemma transpose_empties: "transpose (map (\<lambda>r. []) rs) = []"
  by (induction rs) auto

lemma transpose_pairs:
  "rs \<noteq> [] \<Longrightarrow> transpose (map (\<lambda>r. [f r, g r]) rs) = [map f rs, map g rs]"
proof (cases rs)
  case Nil
  assume "rs \<noteq> []" with Nil show ?thesis by simp
next
  case (Cons r rs')
  have 1: "concat (map (case_list [] (\<lambda>h t. [h])) (map (\<lambda>r. [f r, g r]) rs')) = map f rs'"
    by (rule concat_heads)
  have 2: "concat (map (case_list [] (\<lambda>h t. [t])) (map (\<lambda>r. [f r, g r]) rs')) = map (\<lambda>r. [g r]) rs'"
    by (rule concat_tails)
  have 3: "concat (map (case_list [] (\<lambda>h t. [h])) (map (\<lambda>r. [g r]) rs')) = map g rs'"
    by (rule concat_heads)
  have 4: "concat (map (case_list [] (\<lambda>h t. [t])) (map (\<lambda>r. [g r]) rs')) = map (\<lambda>r. []) rs'"
    by (rule concat_tails)
  have 5: "transpose ([] # map (\<lambda>r. []) rs') = []"
    using transpose_empties[of "r # rs'"] by simp
  show ?thesis
    unfolding Cons by (simp only: list.map transpose.simps 1 2 3 4 5 transpose_empties)
qed


lemma shape_abs_sq: "shape (abs_sq a) = shape a"
  by (simp add: abs_sq_def shape_map_ndarray)

lemma sum_last_rows:
  assumes "xs \<noteq> []" "\<forall>x\<in>set xs. shape x = Some d" "d \<noteq> []"
  shows "sum_last (Array xs) = Array (map sum_last xs)"
proof -
  obtain x where "x \<in> set xs" using assms(1) by (cases xs) auto
  with assms have "\<not> is_scalar x" by (cases x) auto
  with \<open>x \<in> set xs\<close> have "\<not> list_all is_scalar xs" by (auto simp: list_all_iff)
  then show ?thesis by simp
qed

lemma half_power_matrix:
  "half_power (Array [Array [Scalar a, Scalar b], Array [Scalar c, Scalar d]])
   = ((cmod a)\<^sup>2 + (cmod b)\<^sup>2 + (cmod c)\<^sup>2 + (cmod d)\<^sup>2) / 2"
  by (simp add: half_power_def abs_sq_def)

lemma pair_power:
  assumes "shape r = Some [2, 2, 2]"
  shows "map_ndarray (\<lambda>x. x / 2) (sum_last (sum_last (abs_sq r)))
         = Array [Scalar (half_power (children r ! 0)), Scalar (half_power (children r ! 1))]"
proof -
  from shape_pair222[OF assms] obtain m n where
    r: "r = Array [m, n]" and m: "shape m = Some [2, 2]" and n: "shape n = Some [2, 2]" by blast
  from shape_matrix22[OF m] obtain a b c d where
    m': "m = Array [Array [Scalar a, Scalar b], Array [Scalar c, Scalar d]]" by blast
  from shape_matrix22[OF n] obtain a' b' c' d' where
    n': "n = Array [Array [Scalar a', Scalar b'], Array [Scalar c', Scalar d']]" by blast
  show ?thesis unfolding r m' n' by (simp add: half_power_def abs_sq_def)
qed

lemma transpose_two_columns:
  assumes "rs \<noteq> []"
  shows "np_transpose (Array (map (\<lambda>r. Array [Scalar (f r), Scalar (g r)]) rs))
         = Array [Array (map (\<lambda>r. Scalar (f r)) rs), Array (map (\<lambda>r. Scalar (g r)) rs)]"
proof -
  let ?a = "Array (map (\<lambda>r. Array [Scalar (f r), Scalar (g r)]) rs)"
  have "shape ?a = Some [length rs, 2]"
    using shape_Array_uniform[of "map (\<lambda>r. Array [Scalar (f r), Scalar (g r)]) rs" "[2]"] assms
    by simp
  then have nd: "ndim ?a = Suc (Suc 0)" by (simp add: ndim_def)
  have tr: "transpose (map (\<lambda>r. [Scalar (f r), Scalar (g r)]) rs)
            = [map (\<lambda>r. Scalar (f r)) rs, map (\<lambda>r. Scalar (g r)) rs]"
    using transpose_pairs[OF assms, of "\<lambda>r. Scalar (f r)" "\<lambda>r. Scalar (g r)"] .
  show ?thesis
    unfolding np_transpose_def nd by (simp add: comp_def tr)
qed

lemma linear_phase_pairs:
  assumes ne: "rs \<noteq> []" and sh: "\<forall>r\<in>set rs. shape r = Some [2, 2, 2]"
  shows "linear_phase lib rs =
    Inr (\<lparr>J = Array rs,
          T_pp = extractCoefficient lib (abs_sq (Array rs)) ''t_pp'',
          R_pp = extractCoefficient lib (abs_sq (Array rs)) ''r_pp'',
          T_sp = extractCoefficient lib (abs_sq (Array rs)) ''t_sp'',
          R_sp = extractCoefficient lib (abs_sq (Array rs)) ''r_sp'',
          total_power = map_ndarray (\<lambda>x. x / 2) (sum_last (sum_last (abs_sq (Array rs)))),
          R_np = Array (map (\<lambda>r. Scalar (half_power (children r ! 0))) rs),
          T_np = Array (map (\<lambda>r. Scalar (half_power (children r ! 1))) rs)\<rparr>,
         linear_events)"
proof -
  have shJ: "shape (Array rs) = Some [length rs, 2, 2, 2]"
    using shape_Array_uniform[OF ne sh] .
  then have arr: "np_array rs = Inr (Array rs)" by (simp add: np_array_def)
  have shP: "shape (abs_sq (Array rs)) = Some [length rs, 2, 2, 2]"
    by (simp only: shape_abs_sq shJ)
  have s1: "np_sum_last (abs_sq (Array rs)) = Inr (sum_last (abs_sq (Array rs)))"
    using np_sum_last_ok[OF shP] by simp
  have shS1: "shape (sum_last (abs_sq (Array rs))) = Some [length rs, 2, 2]"
    using shape_sum_last[OF shP] by simp
  have s2: "np_sum_last (sum_last (abs_sq (Array rs))) = Inr (sum_last (sum_last (abs_sq (Array rs))))"
    using np_sum_last_ok[OF shS1] by simp
  have a: "abs_sq (Array rs) = Array (map abs_sq rs)" by (simp add: abs_sq_def)
  have b: "\<forall>x\<in>set (map abs_sq rs). shape x = Some [2, 2, 2]"
    using sh by (simp add: shape_abs_sq)
  have "sum_last (Array (map abs_sq rs)) = Array (map sum_last (map abs_sq rs))"
    by (rule sum_last_rows[OF _ b]) (use ne in simp_all)
  then have e1: "sum_last (abs_sq (Array rs)) = Array (map (\<lambda>r. sum_last (abs_sq r)) rs)"
    by (simp only: a map_map comp_def)
  have sh1: "\<forall>x\<in>set (map (\<lambda>r. sum_last (abs_sq r)) rs). shape x = Some [2, 2]"
  proof
    fix x assume "x \<in> set (map (\<lambda>r. sum_last (abs_sq r)) rs)"
    then obtain r where r: "r \<in> set rs" and x: "x = sum_last (abs_sq r)" by auto
    have "shape (abs_sq r) = Some [2, 2, 2]" using sh r by (simp add: shape_abs_sq)
    from shape_sum_last[OF this] show "shape x = Some [2, 2]" by (simp add: x)
  qed
  have "sum_last (Array (map (\<lambda>r. sum_last (abs_sq r)) rs))
        = Array (map sum_last (map (\<lambda>r. sum_last (abs_sq r)) rs))"
    by (rule sum_last_rows[OF _ sh1]) (use ne in simp_all)
  then have e2: "sum_last (sum_last (abs_sq (Array rs)))
                 = Array (map (\<lambda>r. sum_last (sum_last (abs_sq r))) rs)"
    by (simp only: e1 map_map comp_def)
  have tp: "map_ndarray (\<lambda>x. x / 2) (sum_last (sum_last (abs_sq (Array rs))))
            = Array (map (\<lambda>r. Array [Scalar (half_power (children r ! 0)),
                                       Scalar (half_power (children r ! 1))]) rs)"
    unfolding e2 using sh pair_power by (simp add: comp_def)
  have un: "unpack2 (np_transpose (map_ndarray (\<lambda>x. x / 2) (sum_last (sum_last (abs_sq (Array rs))))))
            = Inr (Array (map (\<lambda>r. Scalar (half_power (children r ! 0))) rs),
                   Array (map (\<lambda>r. Scalar (half_power (children r ! 1))) rs))"
    unfolding tp transpose_two_columns[OF ne] by simp
  show ?thesis
    by (simp add: linear_phase_def bindE_def Let_def arr s1 s2 un)
qed


lemma length_linspace: "length (linspace a b n) = n"
  by (simp add: linspace_def Let_def)

lemma linspace_nth:
  assumes "k < n"
  shows "linspace a b n ! k = a + real k * ((b - a) / real (n - 1))"
proof (cases "k = n - 1 \<and> 1 < n")
  case True
  then have "real (n - 1) \<noteq> 0" by simp
  then have "a + real (n - 1) * ((b - a) / real (n - 1)) = b" by simp
  with True assms show ?thesis by (simp add: linspace_def Let_def)
next
  case False
  with assms show ?thesis by (auto simp: linspace_def Let_def)
qed

lemma length_lbda_list: "length lbda_list = 100"
  by (simp add: lbda_list_def length_linspace)

lemma lbda_list_nth:
  "k < 100 \<Longrightarrow> lbda_list ! k = lbda_min + real k * ((lbda_max - lbda_min) / 99)"
  by (simp add: lbda_list_def linspace_nth)

lemma lbda_list_pos: "x \<in> set lbda_list \<Longrightarrow> 0 < x"
proof -
  assume "x \<in> set lbda_list"
  then obtain k where k: "k < 100" and x: "x = lbda_list ! k"
    by (metis in_set_conv_nth length_lbda_list)
  have "0 \<le> real k * ((lbda_max - lbda_min) / 99)"
    by (simp add: lbda_max_def lbda_min_def)
  then show ?thesis unfolding x lbda_list_nth[OF k] by (simp add: lbda_min_def add_pos_nonneg)
qed

lemma argmin_from_keep:
  "\<forall>x\<in>set xs. \<not> x < v \<Longrightarrow> argmin_from xs k b v = b"
  by (induction xs arbitrary: k) auto

lemma argmin_from_unique:
  assumes "m < length xs" "\<forall>j<length xs. j \<noteq> m \<longrightarrow> xs ! m < xs ! j" "xs ! m < v"
  shows "argmin_from xs k b v = k + m"
  using assms
proof (induction xs arbitrary: m k b v)
  case Nil
  then show ?case by simp
next
  case (Cons x xs)
  show ?case
  proof (cases m)
    case 0
    have "\<forall>y\<in>set xs. \<not> y < x"
    proof
      fix y assume "y \<in> set xs"
      then obtain j where "j < length xs" "y = xs ! j" by (metis in_set_conv_nth)
      with Cons.prems(2)[rule_format, of "Suc j"] 0 show "\<not> y < x" by simp
    qed
    with Cons.prems(3) 0 show ?thesis by (simp add: argmin_from_keep)
  next
    case (Suc m')
    have m': "m' < length xs" using Cons.prems(1) Suc by simp
    have uniq: "\<forall>j<length xs. j \<noteq> m' \<longrightarrow> xs ! m' < xs ! j"
    proof (intro allI impI)
      fix j assume "j < length xs" "j \<noteq> m'"
      with Cons.prems(2)[rule_format, of "Suc j"] Suc show "xs ! m' < xs ! j" by simp
    qed
    have lt: "xs ! m' < x" using Cons.prems(2)[rule_format, of 0] Suc by simp
    have ltv: "xs ! m' < v" using Cons.prems(3) Suc by simp
    show ?thesis
      using Cons.IH[OF m' uniq lt] Cons.IH[OF m' uniq ltv] Suc by simp
  qed
qed

lemma argmin_unique:
  assumes "m < length xs" "\<forall>j<length xs. j \<noteq> m \<longrightarrow> xs ! m < xs ! j"
  shows "argmin xs = Inr m"
proof (cases xs)
  case Nil
  with assms show ?thesis by simp
next
  case (Cons x xs')
  show ?thesis
  proof (cases m)
    case 0
    have "\<forall>y\<in>set xs'. \<not> y < x"
    proof
      fix y assume "y \<in> set xs'"
      then obtain j where "j < length xs'" "y = xs' ! j" by (metis in_set_conv_nth)
      with assms(2)[rule_format, of "Suc j"] 0 Cons show "\<not> y < x" by simp
    qed
    with 0 Cons show ?thesis by (simp add: argmin_from_keep)
  next
    case (Suc m')
    have m': "m' < length xs'" using assms(1) Suc Cons by simp
    have uniq: "\<forall>j<length xs'. j \<noteq> m' \<longrightarrow> xs' ! m' < xs' ! j"
    proof (intro allI impI)
      fix j assume "j < length xs'" "j \<noteq> m'"
      with assms(2)[rule_format, of "Suc j"] Suc Cons show "xs' ! m' < xs' ! j" by simp
    qed
    have lt: "xs' ! m' < x" using assms(2)[rule_format, of 0] Suc Cons by simp
    show ?thesis using argmin_from_unique[OF m' uniq lt, of 1 0] Suc Cons by simp
  qed
qed

lemma lbda_B_value: "lbda_B = 10075 / 10 ^ 10"
  by (simp add: lbda_B_def p_def n_med_def ne_def no_def)

lemma stop_band_distance:
  assumes "j < 100" "j \<noteq> 51"
  shows "\<bar>lbda_list ! 51 - lbda_B\<bar> < \<bar>lbda_list ! j - lbda_B\<bar>"
proof -
  have mid: "\<bar>lbda_list ! 51 - lbda_B\<bar> = 1425 / (99 * 10 ^ 10)"
    by (simp add: lbda_list_nth lbda_B_value lbda_min_def lbda_max_def abs_if field_simps)
  have nth: "lbda_list ! j - lbda_B = (4000 * real j - 205425) / (99 * 10 ^ 10)"
    using assms(1) by (simp add: lbda_list_nth lbda_B_value lbda_min_def lbda_max_def field_simps)
  consider "j \<le> 50" | "52 \<le> j" using assms by linarith
  then have "1425 < \<bar>4000 * real j - 205425\<bar>"
  proof cases
    case 1
    then have "real j \<le> 50" by simp
    then show ?thesis by linarith
  next
    case 2
    then have "52 \<le> real j" by simp
    then show ?thesis by linarith
  qed
  then have "1425 / (99 * 10 ^ 10) < \<bar>4000 * real j - 205425\<bar> / (99 * 10 ^ 10)"
    by (simp add: divide_strict_right_mono)
  then show ?thesis unfolding mid nth by (simp only: abs_divide) simp
qed

lemma stop_band_index:
  "argmin (map (\<lambda>lbda. \<bar>lbda - lbda_B\<bar>) lbda_list) = Inr 51"
  by (rule argmin_unique) (auto simp: length_lbda_list stop_band_distance)


lemma build_structure_eval:
  "build_structure lib [] = (constructed lib, constructed_heap lib, construct_events lib)"
  by (simp add: build_structure_def new_def Let_def constructed_def constructed_heap_def
      construct_events_def)

lemma linear_phase_events: "linear_phase lib rs = Inr (lin, ev) \<Longrightarrow> ev = linear_events"
  by (auto simp: linear_phase_def bindE_def Let_def split: sum.splits prod.splits)

lemma eigen_phase_events: "eigen_phase eigf a = Inr (eg, ev) \<Longrightarrow> ev = eigen_events"
  by (auto simp: eigen_phase_def bindE_def Let_def split: sum.splits prod.splits)

lemma script_cases:
  assumes "script lib eigf = Inr r"
  obtains lin ev_linear eg ev_eigen ev_print ev_plot where
    "linear_phase lib (map (\<lambda>k0. getJones lib (constructed_heap lib) 7 Kx k0) k0_list)
     = Inr (lin, ev_linear)"
    "eigen_phase eigf (J lin) = Inr (eg, ev_eigen)"
    "diagnostics (eigenvalues eg) (eigenvectors eg) = Inr ev_print"
    "plotting (R_RR (fst (circular_phase lib (J lin)))) (T_RR (fst (circular_phase lib (J lin))))
     = Inr ev_plot"
    "r = \<lparr>objs = constructed lib, store = constructed_heap lib, linear_basis = lin, eigen_analysis = eg,
          circular_basis = fst (circular_phase lib (J lin)),
          trace = construct_events lib @ sweep_events
                  @ map (\<lambda>k0. (Solver, GetJones 7 Kx k0)) k0_list
                  @ ev_linear @ ev_eigen @ ev_print @ circular_events @ ev_plot\<rparr>"
  using assms
  by (auto simp: script_def build_structure_eval solver_loop_def constructed_def bindE_def Let_def
      circular_phase_def split: sum.splits prod.splits)

lemma script_InrD:
  assumes "script lib eigf = Inr r"
  shows "objs r = constructed lib"
    and "store r = constructed_heap lib"
    and "linear_phase lib (map (\<lambda>k0. getJones lib (constructed_heap lib) 7 Kx k0) k0_list)
         = Inr (linear_basis r, linear_events)"
    and "eigen_phase eigf (J (linear_basis r)) = Inr (eigen_analysis r, eigen_events)"
    and "circular_basis r = fst (circular_phase lib (J (linear_basis r)))"
    and "\<exists>ev_print ev_plot.
           diagnostics (eigenvalues (eigen_analysis r)) (eigenvectors (eigen_analysis r)) = Inr ev_print \<and>
           plotting (R_RR (circular_basis r)) (T_RR (circular_basis r)) = Inr ev_plot \<and>
           trace r = construct_events lib @ sweep_events
                     @ map (\<lambda>k0. (Solver, GetJones 7 Kx k0)) k0_list
                     @ linear_events @ eigen_events @ ev_print @ circular_events @ ev_plot"
proof -
  from assms obtain lin ev_linear eg ev_eigen ev_print ev_plot where
    1: "linear_phase lib (map (\<lambda>k0. getJones lib (constructed_heap lib) 7 Kx k0) k0_list)
        = Inr (lin, ev_linear)"
    and 2: "eigen_phase eigf (J lin) = Inr (eg, ev_eigen)"
    and 3: "diagnostics (eigenvalues eg) (eigenvectors eg) = Inr ev_print"
    and 4: "plotting (R_RR (fst (circular_phase lib (J lin)))) (T_RR (fst (circular_phase lib (J lin))))
            = Inr ev_plot"
    and r: "r = \<lparr>objs = constructed lib, store = constructed_heap lib, linear_basis = lin, eigen_analysis = eg,
          circular_basis = fst (circular_phase lib (J lin)),
          trace = construct_events lib @ sweep_events
                  @ map (\<lambda>k0. (Solver, GetJones 7 Kx k0)) k0_list
                  @ ev_linear @ ev_eigen @ ev_print @ circular_events @ ev_plot\<rparr>"
    by (rule script_cases)
  have l: "ev_linear = linear_events" using 1 by (rule linear_phase_events)
  have e: "ev_eigen = eigen_events" using 2 by (rule eigen_phase_events)
  show "objs r = constructed lib" "store r = constructed_heap lib"
    "circular_basis r = fst (circular_phase lib (J (linear_basis r)))"
    by (simp_all add: r)
  show "linear_phase lib (map (\<lambda>k0. getJones lib (constructed_heap lib) 7 Kx k0) k0_list)
         = Inr (linear_basis r, linear_events)"
    using 1 l by (simp add: r)
  show "eigen_phase eigf (J (linear_basis r)) = Inr (eigen_analysis r, eigen_events)"
    using 2 e by (simp add: r)
  show "\<exists>ev_print ev_plot.
           diagnostics (eigenvalues (eigen_analysis r)) (eigenvectors (eigen_analysis r)) = Inr ev_print \<and>
           plotting (R_RR (circular_basis r)) (T_RR (circular_basis r)) = Inr ev_plot \<and>
           trace r = construct_events lib @ sweep_events
                     @ map (\<lambda>k0. (Solver, GetJones 7 Kx k0)) k0_list
                     @ linear_events @ eigen_events @ ev_print @ circular_events @ ev_plot"
    using 3 4 l e by (simp add: r)
qed


lemma length_k0_list: "length k0_list = 100"
  by (simp add: k0_list_def length_lbda_list)

lemma k0_list_nonempty: "k0_list \<noteq> []"
  using length_k0_list by auto

lemma diagnostics_InrD:
  "diagnostics vals vecs = Inr evs \<Longrightarrow> \<exists>nrm ratio. evs = diagnostics_events vals vecs nrm ratio"
  by (auto simp: diagnostics_def bindE_def split: sum.splits)

lemma plot_check_InrD: "plot_check x y = Inr u \<Longrightarrow> \<exists>d. shape y = Some (length x # d)"
proof -
  assume a: "plot_check x y = Inr u"
  then obtain d where d: "shape y = Some d" "length d = 1 \<or> length d = 2" "hd d = length x"
    by (auto simp: plot_check_def split: option.splits if_splits)
  then have "d \<noteq> []" by auto
  then have "d = hd d # tl d" by simp
  with d show ?thesis by metis
qed

lemma plotting_InrD:
  "plotting a b = Inr evs \<Longrightarrow>
     evs = chart_events a b \<and> plot_check lbda_list a = Inr () \<and> plot_check lbda_list b = Inr ()"
  by (auto simp: plotting_def bindE_def split: sum.splits)

lemma diagnostics_matrix22:
  assumes "shape vecs = Some [2, 2]"
  shows "\<exists>evs. diagnostics vals vecs = Inr evs"
proof -
  from shape_matrix22[OF assms] obtain a b c d where
    v: "vecs = Array [Array [Scalar a, Scalar b], Array [Scalar c, Scalar d]]" by blast
  have r0: "index1_slice1 0 vecs = Inr (Array [Scalar a, Scalar b])"
    by (simp add: v index1_slice1_def bindE_def full_slices_def ndim_def)
  have r1: "index1_slice1 1 vecs = Inr (Array [Scalar c, Scalar d])"
    by (simp add: v index1_slice1_def bindE_def full_slices_def ndim_def)
  have d0: "\<exists>q. np_divide vecs (Array [Scalar a, Scalar b]) = Inr q"
    by (simp add: v np_divide_def)
  have d1: "\<exists>q. np_divide (Array [Scalar c, Scalar d]) (Array [Scalar a, Scalar b]) = Inr q"
    by (simp add: np_divide_def)
  from d0 d1 r0 r1 show ?thesis
    by (auto simp: diagnostics_def bindE_def)
qed

lemma transmission_matrix:
  assumes "k < length rs" "\<forall>r\<in>set rs. shape r = Some [2, 2, 2]"
  shows "index2_slices2 k 1 (Array rs) = Inr (children (rs ! k) ! 1)"
    and "shape (children (rs ! k) ! 1) = Some [2, 2]"
proof -
  have "shape (rs ! k) = Some [2, 2, 2]" using assms by simp
  from shape_pair222[OF this] obtain m n where
    r: "rs ! k = Array [m, n]" and n: "shape n = Some [2, 2]" by blast
  show "index2_slices2 k 1 (Array rs) = Inr (children (rs ! k) ! 1)"
    using assms(1) n by (simp add: index2_slices2_def bindE_def r full_slices_def ndim_def)
  show "shape (children (rs ! k) ! 1) = Some [2, 2]" using n by (simp add: r)
qed

lemma eigen_phase_pairs:
  assumes "length rs = 100" "\<forall>r\<in>set rs. shape r = Some [2, 2, 2]"
  shows "eigen_phase eigf (Array rs) =
           Inr (\<lparr>i = 51, T = children (rs ! 51) ! 1,
                 eigenvalues = fst (eigf (children (rs ! 51) ! 1)),
                 eigenvectors = snd (eigf (children (rs ! 51) ! 1))\<rparr>, eigen_events)"
proof -
  have k: "51 < length rs" using assms(1) by simp
  note t = transmission_matrix[OF k assms(2)]
  show ?thesis
    using t by (simp add: eigen_phase_def stop_band_index bindE_def np_eig_def split: prod.splits)
qed

lemma script_succeeds:
  assumes "well_shaped lib eigf"
  shows "\<exists>r. script lib eigf = Inr r"
proof -
  let ?rs = "map (\<lambda>k0. getJones lib (constructed_heap lib) 7 Kx k0) k0_list"
  have len: "length ?rs = 100" by (simp add: length_k0_list)
  have ne: "?rs \<noteq> []" using k0_list_nonempty by simp
  have sh: "\<forall>r\<in>set ?rs. shape r = Some [2, 2, 2]"
    using assms by (auto simp: well_shaped_def)
  note lin = linear_phase_pairs[OF ne sh, of lib]
  note eg = eigen_phase_pairs[OF len sh, of eigf]
  have shJ: "shape (Array ?rs) = Some [100, 2, 2, 2]"
    using shape_Array_uniform[OF ne sh] len by simp
  have "shape (snd (eigf (children (?rs ! 51) ! 1))) = Some [2, 2]"
    using assms transmission_matrix(2)[OF _ sh, of 51] len by (simp add: well_shaped_def)
  from diagnostics_matrix22[OF this] obtain evs where
    dg: "diagnostics (fst (eigf (children (?rs ! 51) ! 1))) (snd (eigf (children (?rs ! 51) ! 1)))
         = Inr evs" by blast
  have shC: "shape (abs_sq (circularJones lib (Array ?rs))) = Some [100, 2, 2, 2]"
    using assms shJ by (simp add: well_shaped_def shape_abs_sq)
  have pl: "plot_check lbda_list (extractCoefficient lib (abs_sq (circularJones lib (Array ?rs))) c)
            = Inr ()" for c
    using assms shC by (simp add: well_shaped_def plot_check_def length_lbda_list)
  have cst: "s (constructed lib) = 7" by (simp add: constructed_def)
  show ?thesis
    using lin eg dg
    by (simp add: script_def build_structure_eval solver_loop_def cst bindE_def Let_def
        circular_phase_def plotting_def pl)
qed


lemma shape_replicate: "0 < n \<Longrightarrow> shape (Array (replicate n (Scalar x))) = Some [n]"
  using shape_Array_uniform[of "replicate n (Scalar x)" "[]"] by simp

lemma shape_unit_pair: "shape unit_pair = Some [2, 2, 2]"
  by (simp add: unit_pair_def)

lemma shape_column:
  "rs \<noteq> [] \<Longrightarrow> shape (Array (map (\<lambda>r. Scalar (f r)) rs)) = Some [length rs]"
  using shape_Array_uniform[of "map (\<lambda>r. Scalar (f r)) rs" "[]"] by simp

lemma shape_sample_extract:
  assumes "shape pw = Some [100, 2, 2, 2]"
  shows "shape (Array (map (\<lambda>a. Scalar (sample_coefficient a c)) (children pw))) = Some [100]"
proof -
  obtain xs where pw: "pw = Array xs" using assms by (cases pw) auto
  have ne: "xs \<noteq> []" using assms pw by auto
  from shape_Array_SomeD[OF assms[unfolded pw] ne] have "length xs = 100" by simp
  with shape_column[OF ne, of "\<lambda>a. sample_coefficient a c"] show ?thesis by (simp add: pw)
qed

lemma sample_well_shaped: "well_shaped sample_library sample_eig"
proof -
  have "shape (Array [Array [Scalar 1, Scalar 1], Array [Scalar 1, Scalar (- 1::complex)]]) = Some [2, 2]"
    by simp
  then show ?thesis
    by (simp add: well_shaped_def sample_library_def sample_eig_def shape_unit_pair
        shape_sample_extract del: shape.simps)
qed

lemma sample_runs: "\<exists>r. script sample_library sample_eig = Inr r"
  using sample_well_shaped by (rule script_succeeds)

lemma sample_run_projr:
  "script sample_library sample_eig = Inr (projr (script sample_library sample_eig))"
  using sample_runs by auto

lemma unpack2_InrD: "unpack2 a = Inr (x, y) \<Longrightarrow> a = Array [x, y]"
  by (induction a rule: unpack2.induct) auto

lemma linear_phase_InrD:
  assumes "linear_phase lib rs = Inr (lin, ev)"
  shows "J lin = Array rs"
    and "T_pp lin = extractCoefficient lib (abs_sq (Array rs)) ''t_pp''"
    and "R_pp lin = extractCoefficient lib (abs_sq (Array rs)) ''r_pp''"
    and "T_sp lin = extractCoefficient lib (abs_sq (Array rs)) ''t_sp''"
    and "R_sp lin = extractCoefficient lib (abs_sq (Array rs)) ''r_sp''"
    and "total_power lin = map_ndarray (\<lambda>x. x / 2) (sum_last (sum_last (abs_sq (Array rs))))"
    and "np_transpose (total_power lin) = Array [R_np lin, T_np lin]"
  using assms
  by (auto simp: linear_phase_def bindE_def Let_def np_array_def np_sum_last_def
      split: sum.splits prod.splits if_splits option.splits dest: unpack2_InrD)

lemma eigen_phase_InrD:
  assumes "eigen_phase eigf a = Inr (eg, ev)"
  shows "i eg = 51"
    and "index2_slices2 51 1 a = Inr (T eg)"
    and "np_eig eigf (T eg) = Inr (eigenvalues eg, eigenvectors eg)"
  using assms
  by (auto simp: eigen_phase_def bindE_def stop_band_index split: sum.splits prod.splits)

lemma filter_solver_blocks:
  "filter is_solver (map snd (construct_events lib)) = []"
  "filter is_solver (map snd sweep_events) = []"
  "filter is_solver (map snd linear_events) = []"
  "filter is_solver (map snd eigen_events) = []"
  "filter is_solver (map snd (diagnostics_events a b c d)) = []"
  "filter is_solver (map snd circular_events) = []"
  "filter is_solver (map snd (chart_events x y)) = []"
  by (simp_all add: construct_events_def sweep_events_def linear_events_def eigen_events_def
      diagnostics_events_def circular_events_def chart_events_def)

lemma lbda_list_increasing: "sorted_wrt (<) lbda_list"
proof -
  have "lbda_list ! j < lbda_list ! k" if "j < k" "k < 100" for j k
  proof -
    have "real j < real k" using that by simp
    then have "real j * ((lbda_max - lbda_min) / 99) < real k * ((lbda_max - lbda_min) / 99)"
      by (simp add: lbda_max_def lbda_min_def)
    then show ?thesis using that by (simp add: lbda_list_nth)
  qed
  then show ?thesis by (simp add: sorted_wrt_iff_nth_less length_lbda_list)
qed

lemma circular_phase_fields:
  "Jc (fst (circular_phase lib a)) = circularJones lib a"
  "power_c (fst (circular_phase lib a)) = abs_sq (circularJones lib a)"
  "R_RR (fst (circular_phase lib a)) = extractCoefficient lib (abs_sq (circularJones lib a)) ''r_RR''"
  "T_RR (fst (circular_phase lib a)) = extractCoefficient lib (abs_sq (circularJones lib a)) ''t_RR''"
  "T_LL (fst (circular_phase lib a)) = extractCoefficient lib (abs_sq (circularJones lib a)) ''t_LL''"
  "R_LL (fst (circular_phase lib a)) = extractCoefficient lib (abs_sq (circularJones lib a)) ''r_LL''"
  by (simp_all add: circular_phase_def Let_def)

lemma entry_abs_sq: "entry ks (abs_sq a) = map_option (\<lambda>z. (cmod z)\<^sup>2) (entry ks a)"
  by (simp add: abs_sq_def entry_map_ndarray)

lemma script_trace:
  assumes "script lib eigf = Inr r"
  shows "\<exists>nrm ratio.
           trace r = construct_events lib @ sweep_events
                     @ map (\<lambda>k0. (Solver, GetJones 7 Kx k0)) k0_list
                     @ linear_events @ eigen_events
                     @ diagnostics_events (eigenvalues (eigen_analysis r)) (eigenvectors (eigen_analysis r)) nrm ratio
                     @ circular_events
                     @ chart_events (R_RR (circular_basis r)) (T_RR (circular_basis r))"
proof -
  from script_InrD(6)[OF assms] obtain ev_print ev_plot where
    dg: "diagnostics (eigenvalues (eigen_analysis r)) (eigenvectors (eigen_analysis r)) = Inr ev_print"
    and pl: "plotting (R_RR (circular_basis r)) (T_RR (circular_basis r)) = Inr ev_plot"
    and tr: "trace r = construct_events lib @ sweep_events
                     @ map (\<lambda>k0. (Solver, GetJones 7 Kx k0)) k0_list
                     @ linear_events @ eigen_events @ ev_print @ circular_events @ ev_plot"
    by blast
  from diagnostics_InrD[OF dg] obtain nrm ratio where
    ep: "ev_print = diagnostics_events (eigenvalues (eigen_analysis r)) (eigenvectors (eigen_analysis r)) nrm ratio"
    by blast
  from plotting_InrD[OF pl] have
    ec: "ev_plot = chart_events (R_RR (circular_basis r)) (T_RR (circular_basis r))" by simp
  show ?thesis unfolding tr ep ec by blast
qed

lemma script_plot_checks:
  assumes "script lib eigf = Inr r"
  shows "plot_check lbda_list (R_RR (circular_basis r)) = Inr ()"
    and "plot_check lbda_list (T_RR (circular_basis r)) = Inr ()"
proof -
  from script_InrD(6)[OF assms] obtain ev_plot where
    "plotting (R_RR (circular_basis r)) (T_RR (circular_basis r)) = Inr ev_plot" by blast
  from plotting_InrD[OF this]
  show "plot_check lbda_list (R_RR (circular_basis r)) = Inr ()"
    and "plot_check lbda_list (T_RR (circular_basis r)) = Inr ()" by simp_all
qed

lemma filter_plot_blocks:
  "filter is_plot (map snd (construct_events lib)) = []"
  "filter is_plot (map snd sweep_events) = []"
  "filter is_plot (map snd (map (\<lambda>k0. (Solver, GetJones st kx k0)) ks)) = []"
  "filter is_plot (map snd linear_events) = []"
  "filter is_plot (map snd eigen_events) = []"
  "filter is_plot (map snd (diagnostics_events a b c d)) = []"
  "filter is_plot (map snd circular_events) = []"
  "filter is_plot (map snd (chart_events x y)) = [Plot lbda_list x ''R_RR'', Plot lbda_list y ''T_RR'']"
  by (simp_all add: construct_events_def sweep_events_def linear_events_def eigen_events_def
      diagnostics_events_def circular_events_def chart_events_def comp_def)

lemma phases_of_blocks:
  "map fst (construct_events lib) = replicate 9 Construction"
  "map fst sweep_events = replicate 2 Sweep"
  "map fst (map (\<lambda>k0. (Solver, GetJones st kx k0)) k0_list) = replicate 100 Solver"
  "map fst linear_events = replicate 9 LinearBasis"
  "map fst eigen_events = replicate 3 EigenAnalysis"
  "map fst (diagnostics_events a b c d) = replicate 17 Diagnostics"
  "map fst circular_events = replicate 6 CircularBasis"
  "map fst (chart_events x y) = replicate 13 Plotting"
proof -
  have "map fst (map (\<lambda>k0. (Solver, GetJones st kx k0)) k0_list) = replicate (length k0_list) Solver"
    by (simp add: comp_def map_replicate_const)
  then show "map fst (map (\<lambda>k0. (Solver, GetJones st kx k0)) k0_list) = replicate 100 Solver"
    by (simp only: length_k0_list)
qed (simp_all add: construct_events_def sweep_events_def linear_events_def eigen_events_def
      diagnostics_events_def circular_events_def chart_events_def eval_nat_numeral)

lemma sections_of_blocks:
  "list_all in_its_section (construct_events lib)"
  "list_all in_its_section sweep_events"
  "list_all in_its_section (map (\<lambda>k0. (Solver, GetJones st kx k0)) ks)"
  "list_all in_its_section linear_events"
  "list_all in_its_section eigen_events"
  "list_all in_its_section (diagnostics_events a b c d)"
  "list_all in_its_section circular_events"
  "list_all in_its_section (chart_events x y)"
  by (simp_all add: construct_events_def sweep_events_def linear_events_def eigen_events_def
      diagnostics_events_def circular_events_def chart_events_def in_its_section_def
      list_all_iff)

lemma printed_values_append:
  "printed_values (xs @ ys) = printed_values xs @ printed_values ys"
  by (induction xs rule: printed_values.induct) auto

lemma printed_values_blocks:
  "printed_values (construct_events lib) = []"
  "printed_values sweep_events = []"
  "printed_values (map (\<lambda>k0. (Solver, GetJones st kx k0)) ks) = []"
  "printed_values linear_events = []"
  "printed_values eigen_events = []"
  "printed_values circular_events = []"
  "printed_values (chart_events x y) = []"
  by (induction ks)
     (simp_all add: construct_events_def sweep_events_def linear_events_def eigen_events_def
      circular_events_def chart_events_def)

lemma unpack2_length: "length xs \<noteq> 2 \<Longrightarrow> unpack2 (Array xs) = Inl ValueError"
  by (induction "Array xs" rule: unpack2.induct) auto

lemma shape_vector:
  assumes "shape x = Some [n]"
  shows "\<exists>xs. x = Array xs \<and> length xs = n"
proof -
  obtain xs where x: "x = Array xs" using assms by (cases x) auto
  show ?thesis
  proof (cases "xs = []")
    case True
    with assms x show ?thesis by simp
  next
    case False
    with shape_Array_SomeD[OF assms[unfolded x]] x show ?thesis by simp
  qed
qed

lemma transpose_vector:
  assumes "shape x = Some [n]"
  shows "np_transpose x = x"
proof -
  from shape_vector[OF assms] obtain xs where x: "x = Array xs" by blast
  have "ndim x = Suc 0" using assms by (simp add: ndim_def)
  moreover have "map (transpose_axes 0) xs = xs" by (rule map_idI) simp
  ultimately show ?thesis by (simp add: np_transpose_def x)
qed

lemma linear_phase_matrices:
  assumes ne: "rs \<noteq> []" and len: "length rs \<noteq> 2"
    and sh: "\<forall>r\<in>set rs. shape r = Some [a, b]"
  shows "linear_phase lib rs = Inl ValueError"
proof -
  have shJ: "shape (Array rs) = Some [length rs, a, b]"
    using shape_Array_uniform[OF ne sh] .
  then have arr: "np_array rs = Inr (Array rs)" by (simp add: np_array_def)
  have shP: "shape (abs_sq (Array rs)) = Some [length rs, a, b]"
    by (simp only: shape_abs_sq shJ)
  have s1: "np_sum_last (abs_sq (Array rs)) = Inr (sum_last (abs_sq (Array rs)))"
    using np_sum_last_ok[OF shP] by simp
  have shS1: "shape (sum_last (abs_sq (Array rs))) = Some [length rs, a]"
    using shape_sum_last[OF shP] by simp
  have s2: "np_sum_last (sum_last (abs_sq (Array rs))) = Inr (sum_last (sum_last (abs_sq (Array rs))))"
    using np_sum_last_ok[OF shS1] by simp
  have shS2: "shape (sum_last (sum_last (abs_sq (Array rs)))) = Some [length rs]"
    using shape_sum_last[OF shS1] by simp
  let ?tp = "map_ndarray (\<lambda>x. x / 2) (sum_last (sum_last (abs_sq (Array rs))))"
  have shT: "shape ?tp = Some [length rs]"
    by (simp only: shape_map_ndarray shS2)
  from shape_vector[OF shT] obtain xs where xs: "?tp = Array xs" "length xs = length rs" by blast
  have "np_transpose ?tp = Array xs"
    using transpose_vector[OF shT] xs(1) by simp
  then have "unpack2 (np_transpose ?tp) = Inl ValueError"
    using xs(2) len by (simp add: unpack2_length)
  then show ?thesis
    by (simp add: linear_phase_def bindE_def Let_def arr s1 s2)
qed

lemma linear_phase_contract:
  assumes len: "length rs = 100" and c: "\<forall>r\<in>set rs. jones_contract r"
  shows "linear_phase lib rs = Inl ValueError"
proof (cases "shape (Array rs)")
  case None
  then show ?thesis by (simp add: linear_phase_def np_array_def bindE_def)
next
  case (Some d)
  have ne: "rs \<noteq> []" using len by auto
  from Some ne obtain d' where d: "d = length rs # d'"
    by (cases rs) (auto split: option.splits if_splits)
  from shape_Array_SomeD[OF Some[unfolded d] ne] have el: "\<forall>r\<in>set rs. shape r = Some d'" by simp
  obtain r0 where "r0 \<in> set rs" using ne by (cases rs) auto
  with c el have "d' = [2, 2] \<or> d' = [4, 4]" by (auto simp: jones_contract_def)
  then obtain a b where "d' = [a, b]" by auto
  with el have "\<forall>r\<in>set rs. shape r = Some [a, b]" by simp
  from linear_phase_matrices[OF ne _ this] len show ?thesis by simp
qed

lemma script_contract_fails:
  assumes "\<forall>k0\<in>set k0_list. jones_contract (getJones lib (constructed_heap lib) 7 Kx k0)"
  shows "script lib eigf = Inl ValueError"
proof -
  let ?rs = "map (\<lambda>k0. getJones lib (constructed_heap lib) 7 Kx k0) k0_list"
  have "linear_phase lib ?rs = Inl ValueError"
    using assms by (intro linear_phase_contract) (simp_all add: length_k0_list)
  then show ?thesis
    by (simp add: script_def build_structure_eval solver_loop_def constructed_def bindE_def)
qed


lemma lbda_B_inside: "lbda_min < lbda_B" "lbda_B < lbda_max"
  by (simp_all add: lbda_B_value lbda_min_def lbda_max_def)





lemma index2_slices2_InrD:
  assumes "index2_slices2 j k a = Inr t"
  shows "\<exists>rs xs. a = Array rs \<and> j < length rs \<and> rs ! j = Array xs \<and> k < length xs
           \<and> t = xs ! k \<and> 2 \<le> ndim t"
proof -
  from assms obtain b where b: "index_at j a = Inr b" and r: "bindE (index_at k b) (full_slices 2) = Inr t"
    by (auto simp: index2_slices2_def bindE_def split: sum.splits)
  from r obtain c where c: "index_at k b = Inr c" and f: "full_slices 2 c = Inr t"
    by (auto simp: bindE_def split: sum.splits)
  from b obtain rs where 1: "a = Array rs" "j < length rs" "b = rs ! j"
    by (cases a) (auto split: if_splits)
  from c obtain xs where 2: "b = Array xs" "k < length xs" "c = xs ! k"
    by (cases b) (auto split: if_splits)
  from f have 3: "t = c" "2 \<le> ndim t" by (auto simp: full_slices_def split: if_splits)
  from 1 2 have "rs ! j = Array xs" by simp
  with 1 2 3 show ?thesis by blast
qed




lemma length_blocks:
  "length (construct_events lib) = 9"
  "length sweep_events = 2"
  "length (map (\<lambda>k0. (Solver, GetJones st kx k0)) k0_list) = 100"
  "length linear_events = 9"
  "length eigen_events = 3"
  "length (diagnostics_events a b c d) = 17"
  "length circular_events = 6"
  "length (chart_events x y) = 13"
  by (simp_all add: construct_events_def sweep_events_def linear_events_def eigen_events_def
      diagnostics_events_def circular_events_def chart_events_def length_k0_list)

lemma script_trace_split:
  assumes "script lib eigf = Inr r"
  shows "\<exists>pre nrm ratio. length pre = 123
           \<and> trace r = pre
               @ diagnostics_events (eigenvalues (eigen_analysis r)) (eigenvectors (eigen_analysis r))
                   nrm ratio
               @ circular_events
               @ chart_events (R_RR (circular_basis r)) (T_RR (circular_basis r))"
proof -
  from script_trace[OF assms] obtain nrm ratio where
    tr: "trace r = construct_events lib @ sweep_events
                     @ map (\<lambda>k0. (Solver, GetJones 7 Kx k0)) k0_list
                     @ linear_events @ eigen_events
                     @ diagnostics_events (eigenvalues (eigen_analysis r))
                         (eigenvectors (eigen_analysis r)) nrm ratio
                     @ circular_events
                     @ chart_events (R_RR (circular_basis r)) (T_RR (circular_basis r))"
    by blast
  let ?pre = "construct_events lib @ sweep_events
                     @ map (\<lambda>k0. (Solver, GetJones 7 Kx k0)) k0_list
                     @ linear_events @ eigen_events"
  have "length ?pre = 123" by (simp add: length_blocks del: length_map)
  moreover have "trace r = ?pre
               @ diagnostics_events (eigenvalues (eigen_analysis r)) (eigenvectors (eigen_analysis r))
                   nrm ratio
               @ circular_events
               @ chart_events (R_RR (circular_basis r)) (T_RR (circular_basis r))"
    unfolding tr by (simp only: append_assoc)
  ultimately show ?thesis by blast
qed

lemma script_trace_positions:
  assumes "script lib eigf = Inr r"
  shows "length (trace r) = 159"
    and "fst (trace r ! 124) = Diagnostics"
    and "is_print (snd (trace r ! 124))"
    and "trace r ! 140 = (CircularBasis, CircularJones)"
    and "last (trace r) = (Plotting, Show)"
proof -
  from script_trace_split[OF assms] obtain pre nrm ratio where
    len: "length pre = 123"
    and tr: "trace r = pre
               @ diagnostics_events (eigenvalues (eigen_analysis r)) (eigenvectors (eigen_analysis r))
                   nrm ratio
               @ circular_events
               @ chart_events (R_RR (circular_basis r)) (T_RR (circular_basis r))"
    by blast
  show "length (trace r) = 159" unfolding tr by (simp add: length_blocks len)
  have a: "trace r ! 124
           = diagnostics_events (eigenvalues (eigen_analysis r)) (eigenvectors (eigen_analysis r))
               nrm ratio ! 1"
    unfolding tr using len by (simp add: nth_append length_blocks)
  show "fst (trace r ! 124) = Diagnostics" "is_print (snd (trace r ! 124))"
    unfolding a by (simp_all add: diagnostics_events_def)
  have "trace r ! 140 = circular_events ! 0"
    unfolding tr using len by (simp add: nth_append length_blocks)
  then show "trace r ! 140 = (CircularBasis, CircularJones)"
    by (simp add: circular_events_def)
  show "last (trace r) = (Plotting, Show)"
    unfolding tr by (simp add: chart_events_def)
qed

lemma script_not_in_stage_order:
  assumes "script lib eigf = Inr r"
  shows "\<not> sorted (map (\<lambda>e. stage_rank (stage_of (fst e))) (trace r))"
proof
  assume s: "sorted (map (\<lambda>e. stage_rank (stage_of (fst e))) (trace r))"
  note p = script_trace_positions[OF assms]
  have "map (\<lambda>e. stage_rank (stage_of (fst e))) (trace r) ! 124
        \<le> map (\<lambda>e. stage_rank (stage_of (fst e))) (trace r) ! 140"
    using s p(1) by (intro sorted_nth_mono) simp_all
  then show False using p by simp
qed

lemma filter_constructor_blocks:
  "length (filter is_constructor (map snd (construct_events lib))) = 8"
  "filter is_constructor (map snd sweep_events) = []"
  "filter is_constructor (map snd (map (\<lambda>k0. (Solver, GetJones st kx k0)) ks)) = []"
  "filter is_constructor (map snd linear_events) = []"
  "filter is_constructor (map snd eigen_events) = []"
  "filter is_constructor (map snd (diagnostics_events a b c d)) = []"
  "filter is_constructor (map snd circular_events) = []"
  "filter is_constructor (map snd (chart_events x y)) = []"
  by (simp_all add: construct_events_def sweep_events_def linear_events_def eigen_events_def
      diagnostics_events_def circular_events_def chart_events_def comp_def)

lemma filter_library_blocks:
  "filter is_library_array_call (map snd (construct_events lib)) = []"
  "filter is_library_array_call (map snd sweep_events) = []"
  "filter is_library_array_call (map snd (map (\<lambda>k0. (Solver, GetJones st kx k0)) ks)) = []"
  "filter is_library_array_call (map snd linear_events)
     = [ExtractCoefficient ''t_pp'', ExtractCoefficient ''r_pp'',
        ExtractCoefficient ''t_sp'', ExtractCoefficient ''r_sp'']"
  "filter is_library_array_call (map snd eigen_events) = []"
  "filter is_library_array_call (map snd (diagnostics_events a b c d)) = []"
  "filter is_library_array_call (map snd circular_events)
     = [CircularJones, ExtractCoefficient ''r_RR'', ExtractCoefficient ''t_RR'',
        ExtractCoefficient ''t_LL'', ExtractCoefficient ''r_LL'']"
  "filter is_library_array_call (map snd (chart_events x y)) = []"
  by (simp_all add: construct_events_def sweep_events_def linear_events_def eigen_events_def
      diagnostics_events_def circular_events_def chart_events_def comp_def)

lemma filter_numpy_blocks:
  "filter (\<lambda>e. is_numpy (snd e)) (construct_events lib) = []"
  "filter (\<lambda>e. is_numpy (snd e)) sweep_events = [(Sweep, Numpy ''linspace''), (Sweep, Numpy ''tanh'')]"
  "filter (\<lambda>e. is_numpy (snd e)) (map (\<lambda>k0. (Solver, GetJones st kx k0)) ks) = []"
  "filter (\<lambda>e. is_numpy (snd e)) linear_events
     = [(LinearBasis, Numpy ''array''), (LinearBasis, Numpy ''abs''), (LinearBasis, Numpy ''sum''),
        (LinearBasis, Numpy ''sum''), (LinearBasis, Numpy ''transpose'')]"
  "filter (\<lambda>e. is_numpy (snd e)) eigen_events
     = [(EigenAnalysis, Numpy ''abs''), (EigenAnalysis, Numpy ''argmin''),
        (EigenAnalysis, Numpy ''eig'')]"
  "filter (\<lambda>e. is_numpy (snd e)) (diagnostics_events a b c d)
     = [(Diagnostics, Numpy ''set_printoptions''), (Diagnostics, Numpy ''abs''),
        (Diagnostics, Numpy ''abs''), (Diagnostics, Numpy ''angle'')]"
  "filter (\<lambda>e. is_numpy (snd e)) circular_events = [(CircularBasis, Numpy ''abs'')]"
  "filter (\<lambda>e. is_numpy (snd e)) (chart_events x y) = []"
  by (simp_all add: construct_events_def sweep_events_def linear_events_def eigen_events_def
      diagnostics_events_def circular_events_def chart_events_def comp_def)

lemma filter_print_blocks:
  "filter is_print (map snd (construct_events lib)) = []"
  "filter is_print (map snd sweep_events) = []"
  "filter is_print (map snd (map (\<lambda>k0. (Solver, GetJones st kx k0)) ks)) = []"
  "filter is_print (map snd linear_events) = []"
  "filter is_print (map snd eigen_events) = []"
  "length (filter is_print (map snd (diagnostics_events a b c d))) = 13"
  "filter is_print (map snd circular_events) = []"
  "filter is_print (map snd (chart_events x y)) = []"
  by (simp_all add: construct_events_def sweep_events_def linear_events_def eigen_events_def
      diagnostics_events_def circular_events_def chart_events_def comp_def)

lemma filter_pyplot_blocks:
  "filter is_pyplot (map snd (construct_events lib)) = []"
  "filter is_pyplot (map snd sweep_events) = []"
  "filter is_pyplot (map snd (map (\<lambda>k0. (Solver, GetJones st kx k0)) ks)) = []"
  "filter is_pyplot (map snd linear_events) = []"
  "filter is_pyplot (map snd eigen_events) = []"
  "filter is_pyplot (map snd (diagnostics_events a b c d)) = []"
  "filter is_pyplot (map snd circular_events) = []"
  "filter is_pyplot (map snd (chart_events x y))
     = [Figure, AddSubplot ''111'', Rectangle (lbda_B1, 0) (lbda_B2 - lbda_B1) R_th ''cyan'',
        AddPatch, Plot lbda_list x ''R_RR'', Plot lbda_list y ''T_RR'',
        Legend ''center right'' (1.00, 0.50),
        SetTitle ''Right-handed Cholesteric Liquid Crystal, {:.1f} helix pitches'' (real N / 2),
        SetXlabel (''Wavelength $'' @ [CHR 0x5C] @ ''lambda_0$ (m)''),
        SetYlabel ''Power transmission $T$ and reflexion $R$'',
        GetMajorFormatter, SetPowerlimits (- 3) 3, Show]"
  by (simp_all add: construct_events_def sweep_events_def linear_events_def eigen_events_def
      diagnostics_events_def circular_events_def chart_events_def comp_def)

lemma filter_solver_loop:
  "filter is_solver (map snd (map (\<lambda>k0. (Solver, GetJones st kx k0)) ks))
   = map (\<lambda>k0. GetJones st kx k0) ks"
  by (induction ks) simp_all

lemma eigen_phase_argmin:
  assumes "eigen_phase eigf a = Inr (eg, ev)"
  shows "argmin (map (\<lambda>lbda. \<bar>lbda - lbda_B\<bar>) lbda_list) = Inr (i eg)"
    and "index2_slices2 (i eg) 1 a = Inr (T eg)"
    and "(eigenvalues eg, eigenvectors eg) = eigf (T eg)"
  using assms
  by (auto simp: eigen_phase_def bindE_def np_eig_def
      split: sum.splits prod.splits option.splits if_splits)

section \<open>The claims\<close>




text \<open>
  Claim C2. In a run that reaches the last line, the sweep has 100 wavelengths, evenly
  spaced from 0.8e-6 to 1.2e-6 and increasing; the calls of the solver in the trace are
  exactly one \<^verbatim>\<open>s.getJones(Kx, k0)\<close> for each wavelength, in the order of the
  sweep, with \<open>Kx = 0\<close> and \<open>k0 = 2\<pi>/\<lambda>\<close>; and \<open>J\<close> holds the values returned,
  in the same order.
\<close>

theorem solver_called_once_per_wavelength:
  assumes "script lib eigf = Inr r"
  shows "pi_lib = pi
       \<and> length lbda_list = 100
       \<and> (\<forall>k<100. lbda_list ! k = 0.8 / 10 ^ 6 + real k * ((1.2 / 10 ^ 6 - 0.8 / 10 ^ 6) / 99))
       \<and> sorted_wrt (<) lbda_list
       \<and> filter is_solver (map snd (trace r))
           = map (\<lambda>lbda. GetJones (s (objs r)) 0 (2 * pi_lib / lbda)) lbda_list
       \<and> J (linear_basis r)
           = Array (map (\<lambda>lbda. getJones lib (store r) (s (objs r)) 0 (2 * pi_lib / lbda)) lbda_list)"
proof -
  note d = script_InrD[OF assms]
  from d(6) obtain ev_print ev_plot where
    dg: "diagnostics (eigenvalues (eigen_analysis r)) (eigenvectors (eigen_analysis r)) = Inr ev_print"
    and pl: "plotting (R_RR (circular_basis r)) (T_RR (circular_basis r)) = Inr ev_plot"
    and tr: "trace r = construct_events lib @ sweep_events
                     @ map (\<lambda>k0. (Solver, GetJones 7 Kx k0)) k0_list
                     @ linear_events @ eigen_events @ ev_print @ circular_events @ ev_plot"
    by blast
  from diagnostics_InrD[OF dg] obtain nrm ratio where
    ep: "ev_print = diagnostics_events (eigenvalues (eigen_analysis r)) (eigenvectors (eigen_analysis r)) nrm ratio"
    by blast
  from plotting_InrD[OF pl] have
    ec: "ev_plot = chart_events (R_RR (circular_basis r)) (T_RR (circular_basis r))" by simp
  have st: "s (objs r) = 7" by (simp add: d(1) constructed_def)
  have "filter is_solver (map snd (trace r)) = map (\<lambda>k0. GetJones 7 Kx k0) k0_list"
    unfolding tr ep ec by (simp add: filter_solver_blocks comp_def)
  then have 4: "filter is_solver (map snd (trace r))
           = map (\<lambda>lbda. GetJones (s (objs r)) 0 (2 * pi_lib / lbda)) lbda_list"
    by (simp add: st k0_list_def Kx_def comp_def)
  have 5: "J (linear_basis r)
           = Array (map (\<lambda>lbda. getJones lib (store r) (s (objs r)) 0 (2 * pi_lib / lbda)) lbda_list)"
    using linear_phase_InrD(1)[OF d(3)] by (simp add: st d(2) k0_list_def Kx_def comp_def)
  have 2: "\<forall>k<100. lbda_list ! k = 0.8 / 10 ^ 6 + real k * ((1.2 / 10 ^ 6 - 0.8 / 10 ^ 6) / 99)"
    using lbda_list_nth by (simp add: lbda_min_def lbda_max_def)
  show ?thesis using pi_lib_def length_lbda_list 2 lbda_list_increasing 4 5 by blast
qed

theorem solver_called_once_per_wavelength_witness:
  "script sample_library sample_eig = Inr (projr (script sample_library sample_eig))
   \<and> length (filter is_solver (map snd (trace (projr (script sample_library sample_eig))))) = 100"
  using solver_called_once_per_wavelength[OF sample_run_projr] sample_run_projr by simp

text \<open>
  Claim C3. The power arrays are the squared moduli of the Jones arrays, entry by entry
  and with the same shape: line 54 for \<open>J\<close> and line 88 for \<open>Jc = circularJones(J)\<close>.
  \<open>T_pp\<close>, \<open>R_pp\<close>, \<open>T_sp\<close> and \<open>R_sp\<close> are read from the first power array,
  \<open>R_RR\<close>, \<open>T_RR\<close>, \<open>T_LL\<close> and \<open>R_LL\<close> from the second.
\<close>

theorem power_is_squared_modulus:
  assumes "script lib eigf = Inr r"
  shows "(\<forall>ks. entry ks (abs_sq (J (linear_basis r)))
             = map_option (\<lambda>z. (cmod z)\<^sup>2) (entry ks (J (linear_basis r))))
       \<and> shape (abs_sq (J (linear_basis r))) = shape (J (linear_basis r))
       \<and> T_pp (linear_basis r) = extractCoefficient lib (abs_sq (J (linear_basis r))) ''t_pp''
       \<and> R_pp (linear_basis r) = extractCoefficient lib (abs_sq (J (linear_basis r))) ''r_pp''
       \<and> T_sp (linear_basis r) = extractCoefficient lib (abs_sq (J (linear_basis r))) ''t_sp''
       \<and> R_sp (linear_basis r) = extractCoefficient lib (abs_sq (J (linear_basis r))) ''r_sp''
       \<and> Jc (circular_basis r) = circularJones lib (J (linear_basis r))
       \<and> power_c (circular_basis r) = abs_sq (Jc (circular_basis r))
       \<and> (\<forall>ks. entry ks (power_c (circular_basis r))
             = map_option (\<lambda>z. (cmod z)\<^sup>2) (entry ks (Jc (circular_basis r))))
       \<and> shape (power_c (circular_basis r)) = shape (Jc (circular_basis r))
       \<and> R_RR (circular_basis r) = extractCoefficient lib (power_c (circular_basis r)) ''r_RR''
       \<and> T_RR (circular_basis r) = extractCoefficient lib (power_c (circular_basis r)) ''t_RR''
       \<and> T_LL (circular_basis r) = extractCoefficient lib (power_c (circular_basis r)) ''t_LL''
       \<and> R_LL (circular_basis r) = extractCoefficient lib (power_c (circular_basis r)) ''r_LL''"
proof -
  note d = script_InrD[OF assms]
  note l = linear_phase_InrD[OF d(3)]
  have c: "power_c (circular_basis r) = abs_sq (Jc (circular_basis r))"
    by (simp add: d(5) circular_phase_fields)
  show ?thesis
    unfolding c
    by (simp add: entry_abs_sq shape_abs_sq l d(5) circular_phase_fields del: shape.simps)
qed

theorem power_is_squared_modulus_witness:
  "script sample_library sample_eig = Inr (projr (script sample_library sample_eig))
   \<and> entry [0, 1, 0, 0] (power_c (circular_basis (projr (script sample_library sample_eig)))) = Some 1"
proof -
  let ?r = "projr (script sample_library sample_eig)"
  note t = power_is_squared_modulus[OF sample_run_projr]
  note d = script_InrD[OF sample_run_projr]
  have J: "J (linear_basis ?r) = Array (map (\<lambda>k0. unit_pair) k0_list)"
    using linear_phase_InrD(1)[OF d(3)] by (simp add: sample_library_def)
  have Jc: "Jc (circular_basis ?r) = Array (map (\<lambda>k0. unit_pair) k0_list)"
    using t J by (simp add: sample_library_def)
  have "map (\<lambda>k0. unit_pair) k0_list ! 0 = unit_pair"
    using length_k0_list by simp
  then have e: "entry [0, 1, 0, 0] (Jc (circular_basis ?r)) = Some 1"
    using length_k0_list by (simp add: Jc unit_pair_def)
  from t have "entry [0, 1, 0, 0] (power_c (circular_basis ?r))
               = map_option (\<lambda>z. (cmod z)\<^sup>2) (entry [0, 1, 0, 0] (Jc (circular_basis ?r)))"
    by blast
  then have "entry [0, 1, 0, 0] (power_c (circular_basis ?r)) = Some 1"
    using e by simp
  then show ?thesis using sample_run_projr by simp
qed

text \<open>
  Claim C4. \<open>total_power\<close> is the power array summed over its last two axes and
  halved, and \<open>(R_np, T_np)\<close> is its transpose. When the solver returns pairs of 2x2
  matrices, for every index \<open>k\<close> of the sweep \<open>R_np[k]\<close> is half the sum of the four
  squared moduli of the entries of the reflection matrix \<open>J[k,0]\<close>, and \<open>T_np[k]\<close> the
  same for the transmission matrix \<open>J[k,1]\<close>.
\<close>

theorem unpolarized_power:
  assumes run: "script lib eigf = Inr r"
    and pairs: "\<forall>k0\<in>set k0_list. shape (getJones lib (store r) (s (objs r)) Kx k0) = Some [2, 2, 2]"
    and k: "k < 100"
  shows "total_power (linear_basis r)
           = map_ndarray (\<lambda>x. x / 2) (sum_last (sum_last (abs_sq (J (linear_basis r)))))
       \<and> np_transpose (total_power (linear_basis r)) = Array [R_np (linear_basis r), T_np (linear_basis r)]
       \<and> (\<exists>a b c d a' b' c' d'.
            index_at k (J (linear_basis r))
              = Inr (Array [Array [Array [Scalar a, Scalar b], Array [Scalar c, Scalar d]],
                            Array [Array [Scalar a', Scalar b'], Array [Scalar c', Scalar d']]])
          \<and> index_at k (R_np (linear_basis r))
              = Inr (Scalar (((cmod a)\<^sup>2 + (cmod b)\<^sup>2 + (cmod c)\<^sup>2 + (cmod d)\<^sup>2) / 2))
          \<and> index_at k (T_np (linear_basis r))
              = Inr (Scalar (((cmod a')\<^sup>2 + (cmod b')\<^sup>2 + (cmod c')\<^sup>2 + (cmod d')\<^sup>2) / 2)))"
proof -
  note d = script_InrD[OF run]
  let ?rs = "map (\<lambda>k0. getJones lib (constructed_heap lib) 7 Kx k0) k0_list"
  have st: "s (objs r) = 7" by (simp add: d(1) constructed_def)
  have sh: "\<forall>x\<in>set ?rs. shape x = Some [2, 2, 2]"
    using pairs by (simp add: st d(2) del: shape.simps)
  have ne: "?rs \<noteq> []" using k0_list_nonempty by simp
  have len: "k < length ?rs" using k by (simp add: length_k0_list)
  note l = linear_phase_InrD[OF d(3)]
  have "Inr (linear_basis r, linear_events) = linear_phase lib ?rs" using d(3) by simp
  also note linear_phase_pairs[OF ne sh, of lib]
  finally have lin: "R_np (linear_basis r) = Array (map (\<lambda>x. Scalar (half_power (children x ! 0))) ?rs)"
    "T_np (linear_basis r) = Array (map (\<lambda>x. Scalar (half_power (children x ! 1))) ?rs)"
    by simp_all
  have "shape (?rs ! k) = Some [2, 2, 2]" using sh len nth_mem by blast
  from shape_pair222[OF this] obtain m n where
    rk: "?rs ! k = Array [m, n]" and m: "shape m = Some [2, 2]" and n: "shape n = Some [2, 2]"
    by blast
  from shape_matrix22[OF m] obtain a b c d where
    m': "m = Array [Array [Scalar a, Scalar b], Array [Scalar c, Scalar d]]" by blast
  from shape_matrix22[OF n] obtain a' b' c' d' where
    n': "n = Array [Array [Scalar a', Scalar b'], Array [Scalar c', Scalar d']]" by blast
  have 1: "index_at k (J (linear_basis r))
              = Inr (Array [Array [Array [Scalar a, Scalar b], Array [Scalar c, Scalar d]],
                            Array [Array [Scalar a', Scalar b'], Array [Scalar c', Scalar d']]])"
    using len rk by (simp add: l(1) m' n')
  have 2: "index_at k (R_np (linear_basis r))
              = Inr (Scalar (((cmod a)\<^sup>2 + (cmod b)\<^sup>2 + (cmod c)\<^sup>2 + (cmod d)\<^sup>2) / 2))"
    using len rk by (simp add: lin(1) m' half_power_matrix)
  have 3: "index_at k (T_np (linear_basis r))
              = Inr (Scalar (((cmod a')\<^sup>2 + (cmod b')\<^sup>2 + (cmod c')\<^sup>2 + (cmod d')\<^sup>2) / 2))"
    using len rk by (simp add: lin(2) n' half_power_matrix)
  show ?thesis using l(6) l(7) 1 2 3 by (simp only: l(1)) blast
qed

theorem unpolarized_power_witness:
  "script sample_library sample_eig = Inr (projr (script sample_library sample_eig))
   \<and> list_all
         (\<lambda>k0. shape (getJones sample_library (store (projr (script sample_library sample_eig)))
                        (s (objs (projr (script sample_library sample_eig)))) Kx k0)
               = Some [2, 2, 2])
         k0_list
   \<and> (0::nat) < 100
   \<and> index_at 0 (R_np (linear_basis (projr (script sample_library sample_eig)))) = Inr (Scalar 0)
   \<and> index_at 0 (T_np (linear_basis (projr (script sample_library sample_eig)))) = Inr (Scalar 1)"
proof -
  let ?r = "projr (script sample_library sample_eig)"
  have pairs: "\<forall>k0\<in>set k0_list.
         shape (getJones sample_library (store ?r) (s (objs ?r)) Kx k0) = Some [2, 2, 2]"
    by (simp add: sample_library_def shape_unit_pair del: shape.simps)
  have k: "(0::nat) < 100" by simp
  note d = script_InrD[OF sample_run_projr]
  have "J (linear_basis ?r) = Array (map (\<lambda>k0. unit_pair) k0_list)"
    using linear_phase_InrD(1)[OF d(3)] by (simp add: sample_library_def)
  then have J0: "index_at 0 (J (linear_basis ?r)) = Inr unit_pair"
    using length_k0_list by simp
  from unpolarized_power[OF sample_run_projr pairs k] obtain a b c d a' b' c' d' where
    1: "index_at 0 (J (linear_basis ?r))
              = Inr (Array [Array [Array [Scalar a, Scalar b], Array [Scalar c, Scalar d]],
                            Array [Array [Scalar a', Scalar b'], Array [Scalar c', Scalar d']]])"
    and 2: "index_at 0 (R_np (linear_basis ?r))
              = Inr (Scalar (((cmod a)\<^sup>2 + (cmod b)\<^sup>2 + (cmod c)\<^sup>2 + (cmod d)\<^sup>2) / 2))"
    and 3: "index_at 0 (T_np (linear_basis ?r))
              = Inr (Scalar (((cmod a')\<^sup>2 + (cmod b')\<^sup>2 + (cmod c')\<^sup>2 + (cmod d')\<^sup>2) / 2))"
    by blast
  from 1 J0 have "a = 0 \<and> b = 0 \<and> c = 0 \<and> d = 0 \<and> a' = 1 \<and> b' = 0 \<and> c' = 0 \<and> d' = 1"
    by (simp add: unit_pair_def)
  with 2 3 have "index_at 0 (R_np (linear_basis ?r)) = Inr (Scalar 0)"
    "index_at 0 (T_np (linear_basis ?r)) = Inr (Scalar 1)" by simp_all
  with pairs sample_run_projr show ?thesis unfolding list_all_iff by simp
qed

text \<open>
  Claim C5. The chart has exactly two curves: \<open>R_RR\<close> against \<open>lbda_list\<close> with the
  label R_RR, and \<open>T_RR\<close> against \<open>lbda_list\<close> with the label T_RR, the coefficients
  \<^verbatim>\<open>r_RR\<close> and \<^verbatim>\<open>t_RR\<close> of the power array in the circular basis. Each curve
  has one point for each of the 100 wavelengths of the sweep.
\<close>

theorem chart_plots_right_circular_spectra:
  assumes "script lib eigf = Inr r"
  shows "filter is_plot (map snd (trace r))
           = [Plot lbda_list (R_RR (circular_basis r)) ''R_RR'',
              Plot lbda_list (T_RR (circular_basis r)) ''T_RR'']
       \<and> length lbda_list = 100
       \<and> (\<exists>d. shape (R_RR (circular_basis r)) = Some (100 # d))
       \<and> (\<exists>d. shape (T_RR (circular_basis r)) = Some (100 # d))
       \<and> R_RR (circular_basis r)
           = extractCoefficient lib (abs_sq (circularJones lib (J (linear_basis r)))) ''r_RR''
       \<and> T_RR (circular_basis r)
           = extractCoefficient lib (abs_sq (circularJones lib (J (linear_basis r)))) ''t_RR''"
proof -
  from script_trace[OF assms] obtain nrm ratio where
    tr: "trace r = construct_events lib @ sweep_events
                     @ map (\<lambda>k0. (Solver, GetJones 7 Kx k0)) k0_list
                     @ linear_events @ eigen_events
                     @ diagnostics_events (eigenvalues (eigen_analysis r)) (eigenvectors (eigen_analysis r)) nrm ratio
                     @ circular_events
                     @ chart_events (R_RR (circular_basis r)) (T_RR (circular_basis r))"
    by blast
  have 1: "filter is_plot (map snd (trace r))
           = [Plot lbda_list (R_RR (circular_basis r)) ''R_RR'',
              Plot lbda_list (T_RR (circular_basis r)) ''T_RR'']"
    unfolding tr by (simp only: map_append filter_append filter_plot_blocks append_Nil)
  note pc = script_plot_checks[OF assms]
  have 3: "\<exists>d. shape (R_RR (circular_basis r)) = Some (100 # d)"
    using plot_check_InrD[OF pc(1)] by (simp only: length_lbda_list)
  have 4: "\<exists>d. shape (T_RR (circular_basis r)) = Some (100 # d)"
    using plot_check_InrD[OF pc(2)] by (simp only: length_lbda_list)
  note d = script_InrD[OF assms]
  have 5: "R_RR (circular_basis r)
           = extractCoefficient lib (abs_sq (circularJones lib (J (linear_basis r)))) ''r_RR''"
    and 6: "T_RR (circular_basis r)
           = extractCoefficient lib (abs_sq (circularJones lib (J (linear_basis r)))) ''t_RR''"
    by (simp_all add: d(5) circular_phase_fields)
  show ?thesis using 1 length_lbda_list 3 4 5 6 by blast
qed

theorem chart_plots_right_circular_spectra_witness:
  "script sample_library sample_eig = Inr (projr (script sample_library sample_eig))
   \<and> length (filter is_plot (map snd (trace (projr (script sample_library sample_eig))))) = 2"
  using chart_plots_right_circular_spectra[OF sample_run_projr] sample_run_projr
  by simp

text \<open>
  Claim C6 as stated does not hold: the run returns to an earlier phase. The call at
  position 124 of the trace is a \<^verbatim>\<open>print\<close> of the diagnostics, and the call at
  position 140, after it, is \<^verbatim>\<open>circularJones\<close> of line 87, which is post-processing.
\<close>

theorem post_processing_resumes_after_printing:
  "script sample_library sample_eig = Inr (projr (script sample_library sample_eig))
   \<and> is_print (snd (trace (projr (script sample_library sample_eig)) ! 124))
   \<and> stage_of (fst (trace (projr (script sample_library sample_eig)) ! 124)) = Printing
   \<and> snd (trace (projr (script sample_library sample_eig)) ! 140) = CircularJones
   \<and> stage_of (fst (trace (projr (script sample_library sample_eig)) ! 140)) = PostProcessing
   \<and> \<not> sorted (map (\<lambda>e. stage_rank (stage_of (fst e)))
                  (trace (projr (script sample_library sample_eig))))"
  using sample_run_projr script_trace_positions[OF sample_run_projr]
    script_not_in_stage_order[OF sample_run_projr]
  by simp

text \<open>
  Claim C6, amended. In a run that reaches the last line the sections of the script run
  once each, in the order of its text: the 9 calls that construct the materials, the
  layers and the structure; the set-up of the sweep; the 100 calls of the solver; the
  arithmetic in the linear basis; the eigen-analysis; the 13 printed diagnostics; the
  arithmetic in the circular basis (lines 87 to 98); the 13 calls that draw the chart,
  the last of which is \<^verbatim>\<open>show\<close>. So the objects are constructed before the solver
  loop, the loop is over before any post-processing, every \<^verbatim>\<open>print\<close> comes before
  the chart, and the solver is not called after its loop. The post-processing is not one
  phase before the printing: its second part runs after the diagnostics are printed.
\<close>

theorem sections_run_once_in_order:
  assumes "script lib eigf = Inr r"
  shows "map fst (trace r)
           = replicate 9 Construction @ replicate 2 Sweep @ replicate 100 Solver
             @ replicate 9 LinearBasis @ replicate 3 EigenAnalysis @ replicate 17 Diagnostics
             @ replicate 6 CircularBasis @ replicate 13 Plotting
       \<and> sorted (map (\<lambda>e. phase_rank (fst e)) (trace r))
       \<and> list_all in_its_section (trace r)
       \<and> length (filter is_constructor (map snd (trace r))) = 8
       \<and> filter is_solver (map snd (trace r)) = map (\<lambda>k0. GetJones (s (objs r)) Kx k0) k0_list
       \<and> length k0_list = 100
       \<and> filter is_library_array_call (map snd (trace r))
           = [ExtractCoefficient ''t_pp'', ExtractCoefficient ''r_pp'',
              ExtractCoefficient ''t_sp'', ExtractCoefficient ''r_sp'',
              CircularJones, ExtractCoefficient ''r_RR'', ExtractCoefficient ''t_RR'',
              ExtractCoefficient ''t_LL'', ExtractCoefficient ''r_LL'']
       \<and> filter (\<lambda>e. is_numpy (snd e)) (trace r)
           = [(Sweep, Numpy ''linspace''), (Sweep, Numpy ''tanh''),
              (LinearBasis, Numpy ''array''), (LinearBasis, Numpy ''abs''),
              (LinearBasis, Numpy ''sum''), (LinearBasis, Numpy ''sum''),
              (LinearBasis, Numpy ''transpose''),
              (EigenAnalysis, Numpy ''abs''), (EigenAnalysis, Numpy ''argmin''),
              (EigenAnalysis, Numpy ''eig''),
              (Diagnostics, Numpy ''set_printoptions''), (Diagnostics, Numpy ''abs''),
              (Diagnostics, Numpy ''abs''), (Diagnostics, Numpy ''angle''),
              (CircularBasis, Numpy ''abs'')]
       \<and> length (filter is_print (map snd (trace r))) = 13
       \<and> filter is_pyplot (map snd (trace r))
           = [Figure, AddSubplot ''111'',
              Rectangle (lbda_B1, 0) (lbda_B2 - lbda_B1) R_th ''cyan'', AddPatch,
              Plot lbda_list (R_RR (circular_basis r)) ''R_RR'',
              Plot lbda_list (T_RR (circular_basis r)) ''T_RR'',
              Legend ''center right'' (1.00, 0.50),
              SetTitle ''Right-handed Cholesteric Liquid Crystal, {:.1f} helix pitches''
                (real N / 2),
              SetXlabel (''Wavelength $'' @ [CHR 0x5C] @ ''lambda_0$ (m)''),
              SetYlabel ''Power transmission $T$ and reflexion $R$'',
              GetMajorFormatter, SetPowerlimits (- 3) 3, Show]
       \<and> last (trace r) = (Plotting, Show)
       \<and> is_print (snd (trace r ! 124))
       \<and> trace r ! 140 = (CircularBasis, CircularJones)
       \<and> \<not> sorted (map (\<lambda>e. stage_rank (stage_of (fst e))) (trace r))"
proof -
  from script_trace[OF assms] obtain nrm ratio where
    tr: "trace r = construct_events lib @ sweep_events
                     @ map (\<lambda>k0. (Solver, GetJones 7 Kx k0)) k0_list
                     @ linear_events @ eigen_events
                     @ diagnostics_events (eigenvalues (eigen_analysis r))
                         (eigenvectors (eigen_analysis r)) nrm ratio
                     @ circular_events
                     @ chart_events (R_RR (circular_basis r)) (T_RR (circular_basis r))"
    by blast
  have st: "s (objs r) = 7" by (simp add: script_InrD(1)[OF assms] constructed_def)
  have 1: "map fst (trace r)
           = replicate 9 Construction @ replicate 2 Sweep @ replicate 100 Solver
             @ replicate 9 LinearBasis @ replicate 3 EigenAnalysis @ replicate 17 Diagnostics
             @ replicate 6 CircularBasis @ replicate 13 Plotting"
    unfolding tr by (simp only: map_append phases_of_blocks)
  have "map (\<lambda>e. phase_rank (fst e)) (trace r) = map phase_rank (map fst (trace r))"
    by (simp add: comp_def)
  then have 2: "sorted (map (\<lambda>e. phase_rank (fst e)) (trace r))"
    unfolding 1 by (simp add: sorted_append)
  have 3: "list_all in_its_section (trace r)"
    unfolding tr by (simp only: list_all_append sections_of_blocks simp_thms)
  have 4: "length (filter is_constructor (map snd (trace r))) = 8"
    unfolding tr
    by (simp only: map_append filter_append filter_constructor_blocks length_append list.size
        add_0_right)
  have 5: "filter is_solver (map snd (trace r)) = map (\<lambda>k0. GetJones (s (objs r)) Kx k0) k0_list"
    unfolding tr st
    by (simp only: map_append filter_append filter_solver_blocks filter_solver_loop
        append_Nil append_Nil2)
  have 6: "filter is_library_array_call (map snd (trace r))
           = [ExtractCoefficient ''t_pp'', ExtractCoefficient ''r_pp'',
              ExtractCoefficient ''t_sp'', ExtractCoefficient ''r_sp'',
              CircularJones, ExtractCoefficient ''r_RR'', ExtractCoefficient ''t_RR'',
              ExtractCoefficient ''t_LL'', ExtractCoefficient ''r_LL'']"
    unfolding tr
    by (simp only: map_append filter_append filter_library_blocks append_Nil append_Nil2
        append.simps)
  have 7: "filter (\<lambda>e. is_numpy (snd e)) (trace r)
           = [(Sweep, Numpy ''linspace''), (Sweep, Numpy ''tanh''),
              (LinearBasis, Numpy ''array''), (LinearBasis, Numpy ''abs''),
              (LinearBasis, Numpy ''sum''), (LinearBasis, Numpy ''sum''),
              (LinearBasis, Numpy ''transpose''),
              (EigenAnalysis, Numpy ''abs''), (EigenAnalysis, Numpy ''argmin''),
              (EigenAnalysis, Numpy ''eig''),
              (Diagnostics, Numpy ''set_printoptions''), (Diagnostics, Numpy ''abs''),
              (Diagnostics, Numpy ''abs''), (Diagnostics, Numpy ''angle''),
              (CircularBasis, Numpy ''abs'')]"
    unfolding tr
    by (simp only: filter_append filter_numpy_blocks append_Nil append_Nil2 append.simps)
  have 8: "length (filter is_print (map snd (trace r))) = 13"
    unfolding tr
    by (simp only: map_append filter_append filter_print_blocks length_append list.size
        add_0_right add_0)
  have 9: "filter is_pyplot (map snd (trace r))
           = [Figure, AddSubplot ''111'',
              Rectangle (lbda_B1, 0) (lbda_B2 - lbda_B1) R_th ''cyan'', AddPatch,
              Plot lbda_list (R_RR (circular_basis r)) ''R_RR'',
              Plot lbda_list (T_RR (circular_basis r)) ''T_RR'',
              Legend ''center right'' (1.00, 0.50),
              SetTitle ''Right-handed Cholesteric Liquid Crystal, {:.1f} helix pitches''
                (real N / 2),
              SetXlabel (''Wavelength $'' @ [CHR 0x5C] @ ''lambda_0$ (m)''),
              SetYlabel ''Power transmission $T$ and reflexion $R$'',
              GetMajorFormatter, SetPowerlimits (- 3) 3, Show]"
    unfolding tr
    by (simp only: map_append filter_append filter_pyplot_blocks append_Nil append_Nil2)
  note p = script_trace_positions[OF assms]
  note n = script_not_in_stage_order[OF assms]
  show ?thesis using 1 2 3 4 5 length_k0_list 6 7 8 9 p(5) p(3) p(4) n by blast
qed

theorem sections_run_once_in_order_witness:
  "script sample_library sample_eig = Inr (projr (script sample_library sample_eig))
   \<and> length (trace (projr (script sample_library sample_eig))) = 159
   \<and> length (filter is_print (map snd (trace (projr (script sample_library sample_eig))))) = 13"
proof -
  let ?r = "projr (script sample_library sample_eig)"
  note t = sections_run_once_in_order[OF sample_run_projr]
  from t
  have "length (map fst (trace ?r))
        = length (replicate 9 Construction @ replicate 2 Sweep @ replicate 100 Solver
             @ replicate 9 LinearBasis @ replicate 3 EigenAnalysis @ replicate 17 Diagnostics
             @ replicate 6 CircularBasis @ replicate 13 Plotting)"
    by simp
  then have "length (trace ?r) = 159" by simp
  moreover from t have "length (filter is_print (map snd (trace ?r))) = 13" by blast
  ultimately show ?thesis using sample_run_projr by simp
qed

text \<open>
  Claim C8. \<open>front\<close> and \<open>back\<close> are the same reference, to the only half-space object
  on the heap; its material is \<open>glass\<close>, the isotropic material of index 1.55; the
  structure holds this reference on both sides; and the objects and the heap at the end of
  a run are the ones line 35 leaves behind.
\<close>

theorem front_and_back_are_one_object:
  assumes "script lib eigf = Inr r"
  shows "front (objs r) = back (objs r)
       \<and> front (objs r) < length (store r)
       \<and> store r ! front (objs r) = IsotropicHalfSpace (glass (objs r))
       \<and> store r ! glass (objs r) = IsotropicNonDispersiveMaterial 1.55
       \<and> filter is_half_space (store r) = [IsotropicHalfSpace (glass (objs r))]
       \<and> store r ! s (objs r) = Structure (front (objs r)) [L (objs r)] (back (objs r))
       \<and> objs r = fst (build_structure lib [])
       \<and> store r = fst (snd (build_structure lib []))"
  using script_InrD(1,2)[OF assms]
  by (simp add: build_structure_eval constructed_def constructed_heap_def)

theorem front_and_back_are_one_object_witness:
  "script sample_library sample_eig = Inr (projr (script sample_library sample_eig))
   \<and> front (objs (projr (script sample_library sample_eig)))
       = back (objs (projr (script sample_library sample_eig)))
   \<and> length (filter is_half_space (store (projr (script sample_library sample_eig)))) = 1"
  using front_and_back_are_one_object[OF sample_run_projr] sample_run_projr
  by (simp add: build_structure_eval constructed_def constructed_heap_def)

text \<open>
  Claim C9. The Bragg wavelength \<open>lbda_B = p * n_med = 0.65e-6 * 1.55\<close> lies strictly
  between \<open>lbda_min\<close> and \<open>lbda_max\<close>. The index of the middle of the stop band is 51,
  an index of \<open>lbda_list\<close> and of the first axis of \<open>J\<close>. In a run that reaches the
  last line \<open>T\<close> is \<^verbatim>\<open>J[i,1,:,:]\<close> at this index, and whenever the solver returns
  pairs of 2x2 matrices this selection is a 2x2 matrix.
\<close>

theorem stop_band_index_in_bounds:
  "lbda_B = 0.65 / 10 ^ 6 * 1.55
   \<and> lbda_min < lbda_B \<and> lbda_B < lbda_max
   \<and> argmin (map (\<lambda>lbda. \<bar>lbda - lbda_B\<bar>) lbda_list) = Inr 51
   \<and> 51 < length lbda_list
   \<and> (script lib eigf = Inr r \<longrightarrow>
        i (eigen_analysis r) = 51
        \<and> (\<exists>rs. J (linear_basis r) = Array rs \<and> length rs = 100)
        \<and> index2_slices2 (i (eigen_analysis r)) 1 (J (linear_basis r)) = Inr (T (eigen_analysis r)))
   \<and> ((\<forall>k0\<in>set k0_list. shape (getJones lib hp st Kx k0) = Some [2, 2, 2]) \<longrightarrow>
        (\<exists>t. np_array (fst (solver_loop lib hp st)) = Inr (Array (fst (solver_loop lib hp st)))
            \<and> index2_slices2 51 1 (Array (fst (solver_loop lib hp st))) = Inr t
            \<and> shape t = Some [2, 2]))"
proof -
  have 1: "lbda_B = 0.65 / 10 ^ 6 * 1.55"
    by (simp add: lbda_B_def p_def n_med_def ne_def no_def)
  have 5: "51 < length lbda_list" by (simp add: length_lbda_list)
  have 6: "i (eigen_analysis r) = 51
        \<and> (\<exists>rs. J (linear_basis r) = Array rs \<and> length rs = 100)
        \<and> index2_slices2 (i (eigen_analysis r)) 1 (J (linear_basis r)) = Inr (T (eigen_analysis r))"
    if run: "script lib eigf = Inr r"
  proof -
    note d = script_InrD[OF run]
    note e = eigen_phase_InrD[OF d(4)]
    have "J (linear_basis r) = Array (map (\<lambda>k0. getJones lib (constructed_heap lib) 7 Kx k0) k0_list)"
      using linear_phase_InrD(1)[OF d(3)] .
    then have "\<exists>rs. J (linear_basis r) = Array rs \<and> length rs = 100"
      by (simp add: length_k0_list)
    with e show ?thesis by simp
  qed
  have 7: "\<exists>t. np_array (fst (solver_loop lib hp st)) = Inr (Array (fst (solver_loop lib hp st)))
            \<and> index2_slices2 51 1 (Array (fst (solver_loop lib hp st))) = Inr t
            \<and> shape t = Some [2, 2]"
    if a: "\<forall>k0\<in>set k0_list. shape (getJones lib hp st Kx k0) = Some [2, 2, 2]"
  proof -
    let ?rs = "map (\<lambda>k0. getJones lib hp st Kx k0) k0_list"
    have len: "51 < length ?rs" by (simp add: length_k0_list)
    have ne: "?rs \<noteq> []" using k0_list_nonempty by simp
    have sh: "\<forall>r\<in>set ?rs. shape r = Some [2, 2, 2]" using a by (simp del: shape.simps)
    have "shape (Array ?rs) = Some [length ?rs, 2, 2, 2]"
      using shape_Array_uniform[OF ne sh] .
    then have "np_array ?rs = Inr (Array ?rs)" by (simp add: np_array_def del: shape.simps)
    with transmission_matrix[OF len sh] show ?thesis
      by (simp add: solver_loop_def del: shape.simps)
  qed
  from 1 lbda_B_inside stop_band_index 5 6 7 show ?thesis by blast
qed

theorem stop_band_index_in_bounds_witness:
  "script sample_library sample_eig = Inr (projr (script sample_library sample_eig))
   \<and> i (eigen_analysis (projr (script sample_library sample_eig))) = 51
   \<and> list_all (\<lambda>k0. shape (getJones sample_library [] 0 Kx k0) = Some [2, 2, 2]) k0_list
   \<and> (\<exists>t. index2_slices2 51 1 (Array (fst (solver_loop sample_library [] 0))) = Inr t
          \<and> shape t = Some [2, 2])"
proof -
  have 1: "\<forall>k0\<in>set k0_list. shape (getJones sample_library [] 0 Kx k0) = Some [2, 2, 2]"
    by (simp add: sample_library_def shape_unit_pair del: shape.simps)
  note t = stop_band_index_in_bounds[of sample_library sample_eig
      "projr (script sample_library sample_eig)" "[]" 0]
  from t sample_run_projr have 2: "i (eigen_analysis (projr (script sample_library sample_eig))) = 51"
    by blast
  from t 1 have 3: "\<exists>t. index2_slices2 51 1 (Array (fst (solver_loop sample_library [] 0))) = Inr t
          \<and> shape t = Some [2, 2]"
    by blast
  from sample_run_projr 1 2 3 show ?thesis unfolding list_all_iff by blast
qed

text \<open>
  Claim C10. \<open>T\<close> is \<^verbatim>\<open>J[i,1,:,:]\<close>, the second matrix of the value the solver
  returned at the index \<open>i\<close> of the middle of the stop band, and \<open>eigenvalues\<close> are the
  eigenvalues numpy returns for \<open>T\<close>. The third value printed is \<open>eigenvalues\<close>; the
  fifth, under the heading "Corresponding power transmission:", is the array of the squared
  moduli of \<open>eigenvalues\<close>, with the same shape and in the same order.
\<close>

theorem printed_power_transmission:
  assumes "script lib eigf = Inr r"
  shows "argmin (map (\<lambda>lbda. \<bar>lbda - lbda_B\<bar>) lbda_list) = Inr (i (eigen_analysis r))
       \<and> J (linear_basis r)
           = Array (map (\<lambda>k0. getJones lib (store r) (s (objs r)) Kx k0) k0_list)
       \<and> index2_slices2 (i (eigen_analysis r)) 1 (J (linear_basis r)) = Inr (T (eigen_analysis r))
       \<and> (\<exists>xs. index_at (i (eigen_analysis r)) (J (linear_basis r)) = Inr (Array xs)
               \<and> 1 < length xs \<and> T (eigen_analysis r) = xs ! 1)
       \<and> np_eig eigf (T (eigen_analysis r))
           = Inr (eigenvalues (eigen_analysis r), eigenvectors (eigen_analysis r))
       \<and> (eigenvalues (eigen_analysis r), eigenvectors (eigen_analysis r))
           = eigf (T (eigen_analysis r))
       \<and> length (printed_values (trace r)) = 13
       \<and> printed_values (trace r) ! 1 = Text ''Eigenvalues of the Jones transmission matrix:''
       \<and> printed_values (trace r) ! 2 = ComplexValues (eigenvalues (eigen_analysis r))
       \<and> printed_values (trace r) ! 3 = Text ''Corresponding power transmission:''
       \<and> printed_values (trace r) ! 4 = RealValues (abs_sq (eigenvalues (eigen_analysis r)))
       \<and> shape (abs_sq (eigenvalues (eigen_analysis r))) = shape (eigenvalues (eigen_analysis r))
       \<and> (\<forall>ks. entry ks (abs_sq (eigenvalues (eigen_analysis r)))
                = map_option (\<lambda>z. (cmod z)\<^sup>2) (entry ks (eigenvalues (eigen_analysis r))))"
proof -
  from script_trace[OF assms] obtain nrm ratio where
    tr: "trace r = construct_events lib @ sweep_events
                     @ map (\<lambda>k0. (Solver, GetJones 7 Kx k0)) k0_list
                     @ linear_events @ eigen_events
                     @ diagnostics_events (eigenvalues (eigen_analysis r))
                         (eigenvectors (eigen_analysis r)) nrm ratio
                     @ circular_events
                     @ chart_events (R_RR (circular_basis r)) (T_RR (circular_basis r))"
    by blast
  have pv: "printed_values (trace r)
            = printed_values (diagnostics_events (eigenvalues (eigen_analysis r))
                (eigenvectors (eigen_analysis r)) nrm ratio)"
    unfolding tr by (simp only: printed_values_append printed_values_blocks append_Nil append_Nil2)
  note d = script_InrD[OF assms]
  note e = eigen_phase_InrD[OF d(4)]
  note a = eigen_phase_argmin[OF d(4)]
  have st: "s (objs r) = 7" by (simp add: d(1) constructed_def)
  have J: "J (linear_basis r)
           = Array (map (\<lambda>k0. getJones lib (store r) (s (objs r)) Kx k0) k0_list)"
    using linear_phase_InrD(1)[OF d(3)] by (simp add: st d(2))
  from index2_slices2_InrD[OF a(2)] obtain rs xs where
    x: "J (linear_basis r) = Array rs" "i (eigen_analysis r) < length rs"
       "rs ! i (eigen_analysis r) = Array xs" "1 < length xs" "T (eigen_analysis r) = xs ! 1"
    by blast
  then have sel: "\<exists>xs. index_at (i (eigen_analysis r)) (J (linear_basis r)) = Inr (Array xs)
               \<and> 1 < length xs \<and> T (eigen_analysis r) = xs ! 1"
    by auto
  have prints: "length (printed_values (trace r)) = 13
       \<and> printed_values (trace r) ! 1 = Text ''Eigenvalues of the Jones transmission matrix:''
       \<and> printed_values (trace r) ! 2 = ComplexValues (eigenvalues (eigen_analysis r))
       \<and> printed_values (trace r) ! 3 = Text ''Corresponding power transmission:''
       \<and> printed_values (trace r) ! 4 = RealValues (abs_sq (eigenvalues (eigen_analysis r)))"
    unfolding pv by (simp add: diagnostics_events_def)
  have sq: "shape (abs_sq (eigenvalues (eigen_analysis r))) = shape (eigenvalues (eigen_analysis r))
       \<and> (\<forall>ks. entry ks (abs_sq (eigenvalues (eigen_analysis r)))
                = map_option (\<lambda>z. (cmod z)\<^sup>2) (entry ks (eigenvalues (eigen_analysis r))))"
    by (simp add: entry_abs_sq shape_abs_sq del: shape.simps)
  show ?thesis using a(1) J a(2) sel e(3) a(3) prints sq by blast
qed

theorem printed_power_transmission_witness:
  "script sample_library sample_eig = Inr (projr (script sample_library sample_eig))
   \<and> T (eigen_analysis (projr (script sample_library sample_eig)))
       = Array [Array [Scalar 1, Scalar 0], Array [Scalar 0, Scalar 1]]
   \<and> printed_values (trace (projr (script sample_library sample_eig))) ! 2
       = ComplexValues (Array [Scalar 1, Scalar 1])
   \<and> printed_values (trace (projr (script sample_library sample_eig))) ! 4
       = RealValues (Array [Scalar 1, Scalar 1])"
proof -
  let ?r = "projr (script sample_library sample_eig)"
  note t = printed_power_transmission[OF sample_run_projr]
  from t have J: "J (linear_basis ?r) = Array (map (\<lambda>k0. unit_pair) k0_list)"
    by (simp add: sample_library_def)
  from t obtain xs where
    xs: "index_at (i (eigen_analysis ?r)) (J (linear_basis ?r)) = Inr (Array xs)"
        "T (eigen_analysis ?r) = xs ! 1"
    by blast
  from xs(1) have "Array xs = unit_pair"
    by (auto simp: J split: if_splits)
  then have T: "T (eigen_analysis ?r) = Array [Array [Scalar 1, Scalar 0], Array [Scalar 0, Scalar 1]]"
    using xs(2) by (auto simp: unit_pair_def)
  from t have "(eigenvalues (eigen_analysis ?r), eigenvectors (eigen_analysis ?r))
               = sample_eig (T (eigen_analysis ?r))"
    by blast
  then have ev: "eigenvalues (eigen_analysis ?r) = Array [Scalar 1, Scalar 1]"
    by (simp add: sample_eig_def)
  then have "abs_sq (eigenvalues (eigen_analysis ?r)) = Array [Scalar 1, Scalar 1]"
    by (simp add: abs_sq_def)
  with t T ev sample_run_projr show ?thesis by simp
qed

end
